theory Spec2Isabelle
  imports Complex_Main "HOL-Library.Word"
begin

section \<open>Data model (JsonCRDTTypes.h, JsonCRDTConflictResolver.h, JsonCRDTLogger.h)\<close>

text \<open>
  Conventions of the embedding.
  \<^item> An \<open>FString\<close> is a \<open>string\<close>. The engine's \<open>==\<close> and \<open>!=\<close> on \<open>FString\<close> ignore the
    case of ASCII letters; they are \<open>FString_Equals\<close> and its negation here, wherever
    the source compares two \<open>FString\<close>s or looks a key up in a map keyed by \<open>FString\<close>.
  \<^item> An \<open>FDateTime\<close> is its tick count, an \<open>int\<close>; the source only compares and copies
    them.
  \<^item> \<open>int64\<close> is \<open>64 word\<close>, read as signed with \<open>sint\<close>; \<open>int32\<close> capacities are \<open>int\<close>
    (they are never computed with beyond a comparison).
  \<^item> Record fields carry a short prefix of their struct, since several structs share
    field names (\<open>Path\<close>, \<open>Version\<close>, \<open>DocumentID\<close>, \<open>Timestamp\<close>).
  \<^item> \<open>UE_LOG\<close> diagnostics are not part of the state and are left out.
\<close>

type_synonym FString = string
type_synonym FDateTime = int
type_synonym int64 = "64 word"
type_synonym int32 = "32 word"

text \<open>\<open>FString\<close>'s \<open>operator==\<close>: equal after lowering the ASCII capitals.\<close>

definition ToLowerAscii :: "char \<Rightarrow> char" where
  "ToLowerAscii c =
     (if 65 \<le> (of_char c :: nat) \<and> (of_char c :: nat) \<le> 90
      then char_of ((of_char c :: nat) + 32) else c)"

definition FString_Equals :: "FString \<Rightarrow> FString \<Rightarrow> bool" where
  "FString_Equals a b = (map ToLowerAscii a = map ToLowerAscii b)"

datatype EJsonCRDTOperationType = Add | Remove | Replace | Move | Copy | Test

record FJsonCRDTOperation =
  opType :: EJsonCRDTOperationType
  opPath :: FString
  opFromPath :: FString
  opValue :: FString
  opTimestamp :: FDateTime
  opClientID :: FString

record FJsonCRDTPatch =
  patchDocumentID :: FString
  patchBaseVersion :: int64
  patchOperations :: "FJsonCRDTOperation list"
  patchTimestamp :: FDateTime
  patchClientID :: FString

record FJsonCRDTConflict =
  cPath :: FString
  cLocalValue :: FString
  cRemoteValue :: FString
  cLocalOperation :: FJsonCRDTOperation
  cRemoteOperation :: FJsonCRDTOperation
  cResolvedValue :: FString
  cbResolved :: bool

datatype EJsonCRDTConflictStrategy = LastWriterWins | LocalWins | RemoteWins | Custom

section \<open>Conflict resolver (JsonCRDTDefaultConflictResolver.cpp)\<close>

text \<open>
  \<open>ResolveConflict\<close> takes the conflict by reference and returns a \<open>bool\<close>; here it returns
  the pair of the \<open>bool\<close> and the conflict as it is left.
\<close>

definition ResolveLastWriterWins :: "FJsonCRDTConflict \<Rightarrow> bool \<times> FJsonCRDTConflict" where
  "ResolveLastWriterWins Conflict =
     (let Conflict1 =
        (if opTimestamp (cLocalOperation Conflict) > opTimestamp (cRemoteOperation Conflict)
         then Conflict\<lparr>cResolvedValue := cLocalValue Conflict\<rparr>
         else Conflict\<lparr>cResolvedValue := cRemoteValue Conflict\<rparr>)
      in (True, Conflict1\<lparr>cbResolved := True\<rparr>))"

definition ResolveLocalWins :: "FJsonCRDTConflict \<Rightarrow> bool \<times> FJsonCRDTConflict" where
  "ResolveLocalWins Conflict =
     (True, Conflict\<lparr>cResolvedValue := cLocalValue Conflict, cbResolved := True\<rparr>)"

definition ResolveRemoteWins :: "FJsonCRDTConflict \<Rightarrow> bool \<times> FJsonCRDTConflict" where
  "ResolveRemoteWins Conflict =
     (True, Conflict\<lparr>cResolvedValue := cRemoteValue Conflict, cbResolved := True\<rparr>)"

text \<open>\<open>FJsonCRDTDefaultConflictResolver::ResolveConflict\<close>, by the resolver's \<open>Strategy\<close>.\<close>

fun Default_ResolveConflict ::
  "EJsonCRDTConflictStrategy \<Rightarrow> FJsonCRDTConflict \<Rightarrow> bool \<times> FJsonCRDTConflict" where
  "Default_ResolveConflict LastWriterWins Conflict = ResolveLastWriterWins Conflict"
| "Default_ResolveConflict LocalWins Conflict = ResolveLocalWins Conflict"
| "Default_ResolveConflict RemoteWins Conflict = ResolveRemoteWins Conflict"
| "Default_ResolveConflict Custom Conflict = (False, Conflict)"

text \<open>
  The installed \<open>IJsonCRDTConflictResolver\<close>: the default implementation with its strategy,
  or an object of the host, given by what its \<open>GetStrategy\<close> returns and by its
  \<open>ResolveConflict\<close> as a function of the conflict.
\<close>

datatype IJsonCRDTConflictResolver =
    FJsonCRDTDefaultConflictResolver EJsonCRDTConflictStrategy
  | HostConflictResolver EJsonCRDTConflictStrategy
      "FJsonCRDTConflict \<Rightarrow> bool \<times> FJsonCRDTConflict"

fun Resolver_ResolveConflict ::
  "IJsonCRDTConflictResolver \<Rightarrow> FJsonCRDTConflict \<Rightarrow> bool \<times> FJsonCRDTConflict" where
  "Resolver_ResolveConflict (FJsonCRDTDefaultConflictResolver Strategy) Conflict =
     Default_ResolveConflict Strategy Conflict"
| "Resolver_ResolveConflict (HostConflictResolver Strategy f) Conflict = f Conflict"

fun Resolver_GetStrategy :: "IJsonCRDTConflictResolver \<Rightarrow> EJsonCRDTConflictStrategy" where
  "Resolver_GetStrategy (FJsonCRDTDefaultConflictResolver Strategy) = Strategy"
| "Resolver_GetStrategy (HostConflictResolver Strategy f) = Strategy"

section \<open>JSON values and the engine's string functions\<close>

text \<open>
  The engine's \<open>FJsonValue\<close> tree. An \<open>FJsonObject\<close> is the list of its fields; the engine
  keeps them in a map keyed by \<open>FString\<close>, so \<open>FindField\<close> looks a key up with the
  \<open>FString\<close> comparison. The shared pointers inside a tree are taken to be valid. The
  number payload is a \<open>double\<close> in the engine; no modelled function inspects it.
\<close>

datatype FJsonValue =
    JNull
  | JBoolean bool
  | JNumber real
  | JString FString
  | JArray "FJsonValue list"
  | JObject "(FString \<times> FJsonValue) list"

type_synonym FJsonObject = "(FString \<times> FJsonValue) list"

fun FindField :: "FJsonObject \<Rightarrow> FString \<Rightarrow> FJsonValue option" where
  "FindField [] Key = None"
| "FindField ((k, v) # Rest) Key =
     (if FString_Equals k Key then Some v else FindField Rest Key)"

text \<open>
  An \<open>FString\<close> that the source writes with \<open>FJsonSerializer::Serialize\<close> or reads with
  \<open>FJsonSerializer::Deserialize\<close> is kept in parsed form: \<open>Serialized v\<close> is the text the
  serializer writes for \<open>v\<close>, which the parser reads back as \<open>v\<close>; \<open>PlainText s\<close> is any
  string that is not JSON text. The serializer and the parser themselves are the engine's.
\<close>

datatype FJsonText = Serialized FJsonValue | PlainText FString

text \<open>\<open>FJsonSerializer::Deserialize\<close> into a \<open>TSharedPtr<FJsonObject>\<close>: only an object root.\<close>

fun Deserialize :: "FJsonText \<Rightarrow> FJsonObject option" where
  "Deserialize (Serialized (JObject Object)) = Some Object"
| "Deserialize _ = None"

text \<open>\<open>FString::ParseIntoArray(Parts, Delim)\<close> with its default \<open>InCullEmpty = true\<close>.\<close>

fun SplitAt :: "char \<Rightarrow> FString \<Rightarrow> FString \<Rightarrow> FString list" where
  "SplitAt Delim Piece [] = [rev Piece]"
| "SplitAt Delim Piece (c # s) =
     (if c = Delim then rev Piece # SplitAt Delim [] s else SplitAt Delim (c # Piece) s)"

definition ParseIntoArray :: "FString \<Rightarrow> char \<Rightarrow> FString list" where
  "ParseIntoArray s Delim = filter (\<lambda>Piece. Piece \<noteq> []) (SplitAt Delim [] s)"

text \<open>\<open>FString::ReplaceInline\<close> of a two-character pattern \<open>a b\<close> by \<open>To\<close>, left to right.\<close>

fun ReplaceInline :: "char \<Rightarrow> char \<Rightarrow> FString \<Rightarrow> FString \<Rightarrow> FString" where
  "ReplaceInline a b To (x # y # s) =
     (if x = a \<and> y = b then To @ ReplaceInline a b To s
      else x # ReplaceInline a b To (y # s))"
| "ReplaceInline a b To s = s"

text \<open>
  \<open>FCString::Atoi\<close>, the C conversion: leading white space, an optional sign, then decimal
  digits up to the first other character; no digits give 0. The result is an \<open>int32\<close>.
  For a digit string beyond the range of \<open>long\<close> the C library's \<open>strtol\<close> gives the
  nearest bound, and the conversion to \<open>int32\<close> keeps the low 32 bits; the language
  itself leaves the result of \<open>atoi\<close> open there.
\<close>

definition IsDigit :: "char \<Rightarrow> bool" where
  "IsDigit c = (48 \<le> (of_char c :: nat) \<and> (of_char c :: nat) \<le> 57)"

definition IsSpace :: "char \<Rightarrow> bool" where
  "IsSpace c = ((of_char c :: nat) = 32 \<or> (9 \<le> (of_char c :: nat) \<and> (of_char c :: nat) \<le> 13))"

fun DigitsValue :: "int \<Rightarrow> FString \<Rightarrow> int" where
  "DigitsValue acc [] = acc"
| "DigitsValue acc (c # s) =
     (if IsDigit c then DigitsValue (10 * acc + (int (of_char c) - 48)) s else acc)"

definition Strtol :: "FString \<Rightarrow> int" where
  "Strtol s =
     (let v = (case dropWhile IsSpace s of
                 [] \<Rightarrow> 0
               | c # r \<Rightarrow>
                   if c = CHR ''-'' then - DigitsValue 0 r
                   else if c = CHR ''+'' then DigitsValue 0 r
                   else DigitsValue 0 (c # r))
      in max (- (2 ^ 63)) (min (2 ^ 63 - 1) v))"

definition Atoi :: "FString \<Rightarrow> int32" where
  "Atoi s = word_of_int (Strtol s)"

section \<open>Path resolver (UJsonCRDTDocument::GetValueAtPath)\<close>

text \<open>The two \<open>ReplaceInline\<close> calls on a path part: \<open>~1\<close> to \<open>/\<close>, then \<open>~0\<close> to \<open>~\<close>.\<close>

definition Unescape :: "FString \<Rightarrow> FString" where
  "Unescape Part =
     ReplaceInline (CHR ''~'') (CHR ''0'') ''~'' (ReplaceInline (CHR ''~'') (CHR ''1'') ''/'' Part)"

text \<open>
  The \<open>for\<close> loop over \<open>PathParts\<close>, from the current value and the parts still to visit.
  \<open>i < PathParts.Num() - 1\<close> is: parts remain after this one. A scalar reached at the
  last part is kept as the result.
\<close>

fun FollowPath :: "FJsonValue \<Rightarrow> FString list \<Rightarrow> FJsonValue option" where
  "FollowPath CurrentValue [] = Some CurrentValue"
| "FollowPath CurrentValue (Part0 # Rest) =
     (let Part = Unescape Part0 in
      case CurrentValue of
        JObject CurrentObject \<Rightarrow>
          (case FindField CurrentObject Part of
             None \<Rightarrow> None
           | Some FieldValue \<Rightarrow> FollowPath FieldValue Rest)
      | JArray Array \<Rightarrow>
          (let Index = sint (Atoi Part) in
           if Index < 0 \<or> Index \<ge> int (length Array) then None
           else FollowPath (Array ! nat Index) Rest)
      | _ \<Rightarrow> if Rest \<noteq> [] then None else FollowPath CurrentValue Rest)"

definition GetValueAtPath :: "FJsonObject option \<Rightarrow> FString \<Rightarrow> FJsonValue option" where
  "GetValueAtPath JsonObject Path =
     (case JsonObject of
        None \<Rightarrow> None
      | Some Object \<Rightarrow>
          if Path = [] then None
          else
            let PathCopy = (if take 1 Path = ''/'' then drop 1 Path else Path);
                PathParts = ParseIntoArray PathCopy (CHR ''/'')
            in if PathParts = [] then Some (JObject Object)
               else FollowPath (JObject Object) PathParts)"

section \<open>Snapshots, log entries, the default logger (JsonCRDTDefaultLogger.cpp)\<close>

record FJsonCRDTSnapshot =
  snapDocumentID :: FString
  snapVersion :: int64
  snapTimestamp :: FDateTime
  snapContent :: FJsonText

text \<open>
  \<open>logLogID\<close> is the text of a fresh \<open>FGuid\<close>; the model names a GUID by its number in the
  order of drawing. \<open>logOldValue\<close> is serializer output (or the empty string).
\<close>

record FJsonCRDTLogEntry =
  logLogID :: nat
  logDocumentID :: FString
  logOperationType :: FString
  logPath :: FString
  logOldValue :: FJsonText
  logNewValue :: FString
  logTimestamp :: FDateTime
  logbHadConflict :: bool
  logConflict :: FJsonCRDTConflict
  logClientID :: FString
  logSource :: FString

record FJsonCRDTDefaultLogger =
  LogEntries :: "FJsonCRDTLogEntry list"
  MaxLogEntries :: int
  bLoggingEnabled :: bool

definition Logger_LogOperation ::
  "FJsonCRDTLogEntry \<Rightarrow> FJsonCRDTDefaultLogger \<Rightarrow> FJsonCRDTDefaultLogger" where
  "Logger_LogOperation LogEntry L =
     (if \<not> bLoggingEnabled L then L
      else
        let Added = LogEntries L @ [LogEntry]
        in L\<lparr>LogEntries := (if int (length Added) > MaxLogEntries L then tl Added else Added)\<rparr>)"

text \<open>The default constructors of \<open>FJsonCRDTOperation\<close> and \<open>FJsonCRDTConflict\<close> at time \<open>Now\<close>.\<close>

definition DefaultOperation :: "FDateTime \<Rightarrow> FJsonCRDTOperation" where
  "DefaultOperation Now =
     \<lparr>opType = Add, opPath = [], opFromPath = [], opValue = [], opTimestamp = Now,
      opClientID = []\<rparr>"

definition DefaultConflict :: "FDateTime \<Rightarrow> FJsonCRDTConflict" where
  "DefaultConflict Now =
     \<lparr>cPath = [], cLocalValue = [], cRemoteValue = [],
      cLocalOperation = DefaultOperation Now, cRemoteOperation = DefaultOperation Now,
      cResolvedValue = [], cbResolved = False\<rparr>"

section \<open>The document and its surroundings (JsonCRDTDocument.h)\<close>

text \<open>
  The per-document record file, as \<open>LoadFromLocal\<close> sees it through the engine's
  \<open>TryGet...Field\<close> accessors: each field is the value the accessor yields, or \<open>None\<close> when
  the accessor fails. A date is written with \<open>FDateTime::ToString\<close>, which keeps whole
  seconds (\<open>10^7\<close> ticks), and read back with \<open>FDateTime::Parse\<close>. A version is written
  with \<open>SetNumberField\<close>, which stores a \<open>double\<close>: the \<open>int64\<close> is rounded to 53
  significant bits, to the nearest, ties to even (\<open>RoundToDouble\<close>), and
  \<open>TryGetNumberField\<close> converts that back to an \<open>int64\<close> (\<open>ThroughDouble\<close>). The greatest
  versions round to \<open>2^63\<close>, whose conversion back the language leaves open; the model
  wraps it.
\<close>

record SavedSnapshot =
  ssDocumentId :: "FString option"
  ssVersion :: "int64 option"
  ssTimestamp :: "FDateTime option"
  ssContent :: "FJsonText option"

record SavedDocument =
  sdDocumentId :: "FString option"
  sdVersion :: "int64 option"
  sdTimestamp :: "FDateTime option"
  sdContent :: "FJsonObject option"
  sdLatestSnapshot :: "SavedSnapshot option"

text \<open>
  A file that exists: \<open>Unreadable\<close> when \<open>LoadFileToString\<close> fails, \<open>Malformed\<close> when its text
  does not deserialize into an object.
\<close>

datatype LocalFile = Unreadable | Malformed | SavedData SavedDocument

definition WholeSeconds :: "FDateTime \<Rightarrow> FDateTime" where
  "WholeSeconds t = t - t mod 10000000"

text \<open>The spacing of the doubles around \<open>a\<close>, for \<open>0 \<le> a \<le> 2^63\<close> (at most 11 halvings).\<close>

fun DoubleUlp :: "nat \<Rightarrow> int \<Rightarrow> int" where
  "DoubleUlp 0 a = 1"
| "DoubleUlp (Suc n) a = (if a < 2 ^ 53 then 1 else 2 * DoubleUlp n (a div 2))"

definition RoundToDouble :: "int \<Rightarrow> int" where
  "RoundToDouble v =
     (let a = \<bar>v\<bar>;
          q = DoubleUlp 11 a;
          lo = (a div q) * q;
          r = a - lo;
          m = (if 2 * r < q then lo
               else if 2 * r > q then lo + q
               else if even (a div q) then lo else lo + q)
      in sgn v * m)"

definition ThroughDouble :: "int64 \<Rightarrow> int64" where
  "ThroughDouble v = word_of_int (RoundToDouble (sint v))"

text \<open>What the document's multicast delegates have been sent, in order.\<close>

datatype Event =
    OnDocumentChanged FString
  | OnConflictDetected FJsonCRDTConflict
  | OnDocumentRecovered FString FString

text \<open>
  The surroundings a document runs in: the clock (\<open>FDateTime::UtcNow\<close>, held fixed during
  a call), the number of GUIDs drawn, the file system with the outcomes of its
  operations, and the notifications sent so far. Two fields stand for the engine's
  allocator, which the model does not hold: \<open>bAddMovesSnapshotStorage\<close> says whether an
  \<open>Add\<close> to \<open>SnapshotHistory\<close> finds the array's allocation full and moves its storage,
  and \<open>StaleVersionRead\<close> is what a read of a snapshot's version yields through a
  reference that no longer points at an entry of the array (the language leaves that
  read undefined).
\<close>

record World =
  Clock :: FDateTime
  Guids :: nat
  ProjectSavedDir :: FString
  Files :: "FString \<Rightarrow> LocalFile option"
  Directories :: "FString \<Rightarrow> bool"
  bCanCreateDirectory :: bool
  bCanSaveFile :: bool
  bAddMovesSnapshotStorage :: bool
  StaleVersionRead :: int64
  Broadcasts :: "Event list"

text \<open>
  The members of \<open>UJsonCRDTDocument\<close> that the modelled functions use. \<open>OperationHistory\<close>
  holds operations, as every use in JsonCRDTDocument.cpp has it. \<open>Content\<close> is a valid
  pointer from the constructor on. \<open>SyncManager\<close> and \<open>PendingOperations\<close> are not touched
  by the functions below.
\<close>

record UJsonCRDTDocument = World +
  DocumentID :: FString
  Version :: int64
  Content :: FJsonObject
  OperationHistory :: "FJsonCRDTOperation list"
  SnapshotHistory :: "FJsonCRDTSnapshot list"
  MaxOperationHistory :: int
  MaxSnapshotHistory :: int
  bAutoLocalSave :: bool
  LastErrorMessage :: FString
  ConflictStrategy :: EJsonCRDTConflictStrategy
  ConflictResolver :: "IJsonCRDTConflictResolver option"
  Logger :: "FJsonCRDTDefaultLogger option"

text \<open>The constructor \<open>UJsonCRDTDocument::UJsonCRDTDocument\<close>, in the surroundings \<open>w\<close>.\<close>

definition NewDocument :: "World \<Rightarrow> UJsonCRDTDocument" where
  "NewDocument w =
     \<lparr>Clock = Clock w, Guids = Guids w, ProjectSavedDir = ProjectSavedDir w,
      Files = Files w, Directories = Directories w,
      bCanCreateDirectory = bCanCreateDirectory w, bCanSaveFile = bCanSaveFile w,
      bAddMovesSnapshotStorage = bAddMovesSnapshotStorage w,
      StaleVersionRead = StaleVersionRead w,
      Broadcasts = Broadcasts w,
      DocumentID = [], Version = 1, Content = [], OperationHistory = [],
      SnapshotHistory = [], MaxOperationHistory = 100, MaxSnapshotHistory = 10,
      bAutoLocalSave = False, LastErrorMessage = [],
      ConflictStrategy = LastWriterWins,
      ConflictResolver = Some (FJsonCRDTDefaultConflictResolver LastWriterWins),
      Logger = Some \<lparr>LogEntries = [], MaxLogEntries = 1000, bLoggingEnabled = True\<rparr>\<rparr>"

section \<open>Snapshots and local persistence (JsonCRDTDocument.cpp)\<close>

definition GetContentAsString :: "UJsonCRDTDocument \<Rightarrow> FJsonText" where
  "GetContentAsString d = Serialized (JObject (Content d))"

definition CreateSnapshot :: "UJsonCRDTDocument \<Rightarrow> FJsonCRDTSnapshot" where
  "CreateSnapshot d =
     \<lparr>snapDocumentID = DocumentID d, snapVersion = Version d, snapTimestamp = Clock d,
      snapContent = GetContentAsString d\<rparr>"

text \<open>\<open>RemoveAt(0, Count)\<close> removes the \<open>Count\<close> oldest entries.\<close>

definition CreateAndAddSnapshot :: "UJsonCRDTDocument \<Rightarrow> UJsonCRDTDocument" where
  "CreateAndAddSnapshot d =
     (let Added = SnapshotHistory d @ [CreateSnapshot d]
      in d\<lparr>SnapshotHistory :=
             (if int (length Added) > MaxSnapshotHistory d
              then drop (nat (int (length Added) - MaxSnapshotHistory d)) Added
              else Added)\<rparr>)"

definition GetLocalStoragePath :: "UJsonCRDTDocument \<Rightarrow> FString" where
  "GetLocalStoragePath d = ProjectSavedDir d @ ''/JsonCRDT/'' @ DocumentID d @ ''.json''"

text \<open>\<open>FPaths::GetPath\<close>: the text before the last \<open>/\<close>.\<close>

definition GetPath :: "FString \<Rightarrow> FString" where
  "GetPath FilePath = rev (drop 1 (dropWhile (\<lambda>c. c \<noteq> CHR ''/'') (rev FilePath)))"

definition SetLastErrorMessage :: "FString \<Rightarrow> UJsonCRDTDocument \<Rightarrow> UJsonCRDTDocument" where
  "SetLastErrorMessage ErrorMessage d = d\<lparr>LastErrorMessage := ErrorMessage\<rparr>"

text \<open>
  \<open>SaveLocally\<close>. Serializing into a string does not fail, so the source's branch for a
  failed \<open>Serialize\<close> is not taken.
\<close>

definition SaveLocally :: "UJsonCRDTDocument \<Rightarrow> bool \<times> UJsonCRDTDocument" where
  "SaveLocally d =
     (let FilePath = GetLocalStoragePath d;
          DirectoryPath = GetPath FilePath
      in if \<not> Directories d DirectoryPath \<and> \<not> bCanCreateDirectory d
         then (False, SetLastErrorMessage (''Failed to create directory: '' @ DirectoryPath) d)
         else
           let d1 = d\<lparr>Directories := (Directories d)(DirectoryPath := True)\<rparr>;
               SaveData =
                 \<lparr>sdDocumentId = Some (DocumentID d1),
                  sdVersion = Some (ThroughDouble (Version d1)),
                  sdTimestamp = Some (WholeSeconds (Clock d1)),
                  sdContent = Some (Content d1),
                  sdLatestSnapshot =
                    (if SnapshotHistory d1 \<noteq> []
                     then Some \<lparr>ssDocumentId = Some (snapDocumentID (last (SnapshotHistory d1))),
                                ssVersion =
                                  Some (ThroughDouble (snapVersion (last (SnapshotHistory d1)))),
                                ssTimestamp =
                                  Some (WholeSeconds (snapTimestamp (last (SnapshotHistory d1)))),
                                ssContent = Some (snapContent (last (SnapshotHistory d1)))\<rparr>
                     else None)\<rparr>
           in if \<not> bCanSaveFile d1
              then (False,
                    SetLastErrorMessage (''Failed to save document to file: '' @ FilePath) d1)
              else (True, d1\<lparr>Files := (Files d1)(FilePath \<mapsto> SavedData SaveData)\<rparr>))"

definition NotifyDocumentChanged :: "UJsonCRDTDocument \<Rightarrow> UJsonCRDTDocument" where
  "NotifyDocumentChanged d =
     (let d1 = d\<lparr>Broadcasts := Broadcasts d @ [OnDocumentChanged (DocumentID d)]\<rparr>
      in if bAutoLocalSave d1 then snd (SaveLocally d1) else d1)"

definition Initialize :: "FString \<Rightarrow> UJsonCRDTDocument \<Rightarrow> UJsonCRDTDocument" where
  "Initialize InDocumentID d = CreateAndAddSnapshot (d\<lparr>DocumentID := InDocumentID\<rparr>)"

text \<open>\<open>SetContent\<close>; the argument is a shared pointer, \<open>None\<close> when it is not valid.\<close>

definition SetContent :: "FJsonObject option \<Rightarrow> UJsonCRDTDocument \<Rightarrow> bool \<times> UJsonCRDTDocument" where
  "SetContent JsonObject d =
     (case JsonObject of
        None \<Rightarrow> (False, d)
      | Some Object \<Rightarrow>
          (True,
           NotifyDocumentChanged
             (CreateAndAddSnapshot (d\<lparr>Content := Object, Version := Version d + 1\<rparr>))))"

definition SetContentFromString :: "FJsonText \<Rightarrow> UJsonCRDTDocument \<Rightarrow> bool \<times> UJsonCRDTDocument" where
  "SetContentFromString JsonString d =
     (case Deserialize JsonString of
        Some Object \<Rightarrow> SetContent (Some Object) d
      | None \<Rightarrow> (False, d))"

text \<open>
  \<open>RestoreFromSnapshot\<close> takes its snapshot by reference. \<open>Temporary\<close> is a reference to a
  snapshot outside the document's arrays, as a caller holding the result of
  \<open>CreateSnapshot\<close> passes; \<open>LastOfHistory\<close> is the reference \<open>SnapshotHistory.Last()\<close> that
  \<open>RecoverDocument\<close> passes, into the slot of the newest entry. The document id and the
  content are read through the reference before anything changes. The version is read
  after \<open>SetContentFromString\<close> has added a snapshot to \<open>SnapshotHistory\<close> and trimmed it:
  through \<open>LastOfHistory\<close> that read finds whatever entry the slot holds by then, or, when
  the storage has moved or the slot lies beyond the entries, no entry at all.
  (\<open>Last()\<close> of an empty array fails the engine's range check; \<open>RecoverDocument\<close> does not
  call it then, and the model returns failure.)
\<close>

datatype SnapshotRef = Temporary FJsonCRDTSnapshot | LastOfHistory

definition ReadSnapshot :: "SnapshotRef \<Rightarrow> UJsonCRDTDocument \<Rightarrow> FJsonCRDTSnapshot option" where
  "ReadSnapshot Ref d =
     (case Ref of
        Temporary Snapshot \<Rightarrow> Some Snapshot
      | LastOfHistory \<Rightarrow>
          if SnapshotHistory d = [] then None else Some (last (SnapshotHistory d)))"

text \<open>
  The read of \<open>Snapshot.Version\<close> in the state \<open>d1\<close>, through a reference taken in the
  state \<open>d\<close>.
\<close>

definition ReadVersionLater ::
  "SnapshotRef \<Rightarrow> UJsonCRDTDocument \<Rightarrow> UJsonCRDTDocument \<Rightarrow> int64" where
  "ReadVersionLater Ref d d1 =
     (case Ref of
        Temporary Snapshot \<Rightarrow> snapVersion Snapshot
      | LastOfHistory \<Rightarrow>
          let Slot = length (SnapshotHistory d) - 1
          in if bAddMovesSnapshotStorage d \<or> \<not> Slot < length (SnapshotHistory d1)
             then StaleVersionRead d
             else snapVersion (SnapshotHistory d1 ! Slot))"

definition RestoreFromSnapshot ::
  "SnapshotRef \<Rightarrow> UJsonCRDTDocument \<Rightarrow> bool \<times> UJsonCRDTDocument" where
  "RestoreFromSnapshot Ref d =
     (case ReadSnapshot Ref d of
        None \<Rightarrow> (False, d)
      | Some Snapshot \<Rightarrow>
          if \<not> FString_Equals (snapDocumentID Snapshot) (DocumentID d) then (False, d)
          else
            (case SetContentFromString (snapContent Snapshot) d of
               (False, d1) \<Rightarrow> (False, d1)
             | (True, d1) \<Rightarrow>
                 (True, NotifyDocumentChanged (d1\<lparr>Version := ReadVersionLater Ref d d1\<rparr>))))"

text \<open>
  \<open>LoadFromLocal\<close>. The snapshot read from the record starts as a default-constructed
  \<open>FJsonCRDTSnapshot\<close> (version 0, the current time, empty content) and is added to
  \<open>SnapshotHistory\<close> as it is filled.
\<close>

definition LoadFromLocal :: "UJsonCRDTDocument \<Rightarrow> bool \<times> UJsonCRDTDocument" where
  "LoadFromLocal d =
     (let FilePath = GetLocalStoragePath d
      in case Files d FilePath of
           None \<Rightarrow> (False, SetLastErrorMessage (''Local file does not exist: '' @ FilePath) d)
         | Some Unreadable \<Rightarrow>
             (False, SetLastErrorMessage (''Failed to load document from file: '' @ FilePath) d)
         | Some Malformed \<Rightarrow>
             (False, SetLastErrorMessage ''Failed to deserialize document data'' d)
         | Some (SavedData LoadData) \<Rightarrow>
             if (case sdDocumentId LoadData of
                   None \<Rightarrow> True
                 | Some LoadedDocumentID \<Rightarrow>
                     \<not> FString_Equals LoadedDocumentID (DocumentID d))
             then (False,
                   SetLastErrorMessage
                     (''Document ID mismatch: ''
                        @ (case sdDocumentId LoadData of None \<Rightarrow> [] | Some l \<Rightarrow> l)
                        @ '' != '' @ DocumentID d) d)
             else
               let d1 = (case sdVersion LoadData of
                           Some LoadedVersion \<Rightarrow> d\<lparr>Version := LoadedVersion\<rparr>
                         | None \<Rightarrow> d)
               in (case sdContent LoadData of
                    None \<Rightarrow>
                      (False, SetLastErrorMessage ''Failed to get content from loaded data'' d1)
                  | Some ContentObject \<Rightarrow>
                      let d2 = d1\<lparr>Content := ContentObject\<rparr>;
                          d3 =
                            (case sdLatestSnapshot LoadData of
                               None \<Rightarrow> d2
                             | Some SnapshotObject \<Rightarrow>
                                 if (case ssDocumentId SnapshotObject of
                                       None \<Rightarrow> True
                                     | Some SnapshotID \<Rightarrow>
                                         \<not> FString_Equals SnapshotID (DocumentID d2))
                                 then d2
                                 else
                                   let Snapshot =
                                     \<lparr>snapDocumentID =
                                        (case ssDocumentId SnapshotObject of
                                           Some SnapshotID \<Rightarrow> SnapshotID | None \<Rightarrow> []),
                                      snapVersion =
                                        (case ssVersion SnapshotObject of
                                           Some v \<Rightarrow> v | None \<Rightarrow> 0),
                                      snapTimestamp =
                                        (case ssTimestamp SnapshotObject of
                                           Some t \<Rightarrow> t | None \<Rightarrow> Clock d2),
                                      snapContent =
                                        (case ssContent SnapshotObject of
                                           Some c \<Rightarrow> c | None \<Rightarrow> PlainText [])\<rparr>
                                   in d2\<lparr>SnapshotHistory := SnapshotHistory d2 @ [Snapshot]\<rparr>)
                      in (True, NotifyDocumentChanged d3)))"

text \<open>
  \<open>RecoverDocument\<close>. It hands \<open>RestoreFromSnapshot\<close> the reference \<open>SnapshotHistory.Last()\<close>.
\<close>

definition RecoverDocument :: "UJsonCRDTDocument \<Rightarrow> bool \<times> UJsonCRDTDocument" where
  "RecoverDocument d =
     (case LoadFromLocal d of
        (True, d1) \<Rightarrow>
          (True, d1\<lparr>Broadcasts :=
                      Broadcasts d1 @ [OnDocumentRecovered (DocumentID d1) ''LocalStorage'']\<rparr>)
      | (False, d1) \<Rightarrow>
          (case (if SnapshotHistory d1 \<noteq> []
                 then RestoreFromSnapshot LastOfHistory d1
                 else (False, d1)) of
             (True, d2) \<Rightarrow>
               (True, d2\<lparr>Broadcasts :=
                           Broadcasts d2 @ [OnDocumentRecovered (DocumentID d2) ''Snapshot'']\<rparr>)
           | (False, d2) \<Rightarrow>
               (False, SetLastErrorMessage ''Failed to recover document from any source'' d2)))"

section \<open>Conflict strategy, logging, patch application (JsonCRDTDocument.cpp)\<close>

text \<open>
  \<open>SetConflictStrategy\<close>. The source casts the installed resolver to the default class
  without a check; on a host's resolver that cast has no defined result, and the model
  leaves such a resolver in place.
\<close>

definition SetConflictStrategy ::
  "EJsonCRDTConflictStrategy \<Rightarrow> UJsonCRDTDocument \<Rightarrow> UJsonCRDTDocument" where
  "SetConflictStrategy Strategy d =
     (let d1 = d\<lparr>ConflictStrategy := Strategy\<rparr>
      in case ConflictResolver d1 of
           Some (FJsonCRDTDefaultConflictResolver Old) \<Rightarrow>
             if Old \<noteq> Strategy
             then d1\<lparr>ConflictResolver := Some (FJsonCRDTDefaultConflictResolver Strategy)\<rparr>
             else d1
         | _ \<Rightarrow> d1)"

definition SetConflictResolver ::
  "IJsonCRDTConflictResolver option \<Rightarrow> UJsonCRDTDocument \<Rightarrow> UJsonCRDTDocument" where
  "SetConflictResolver InConflictResolver d =
     (case InConflictResolver of
        None \<Rightarrow> d
      | Some R \<Rightarrow> d\<lparr>ConflictResolver := Some R, ConflictStrategy := Resolver_GetStrategy R\<rparr>)"

text \<open>\<open>UJsonCRDTDocument::ResolveConflict\<close>: installs a default resolver when none is set.\<close>

definition ResolveConflict ::
  "FJsonCRDTConflict \<Rightarrow> UJsonCRDTDocument \<Rightarrow> bool \<times> FJsonCRDTConflict \<times> UJsonCRDTDocument" where
  "ResolveConflict Conflict d =
     (let d1 = (case ConflictResolver d of
                  None \<Rightarrow>
                    d\<lparr>ConflictResolver :=
                        Some (FJsonCRDTDefaultConflictResolver (ConflictStrategy d))\<rparr>
                | Some _ \<Rightarrow> d)
      in case ConflictResolver d1 of
           Some R \<Rightarrow> (case Resolver_ResolveConflict R Conflict of (b, c) \<Rightarrow> (b, c, d1))
         | None \<Rightarrow> (False, Conflict, d1))"

text \<open>\<open>ApplyOperation\<close>: every branch of the source's \<open>switch\<close> is empty.\<close>

definition ApplyOperation :: "FJsonCRDTOperation \<Rightarrow> UJsonCRDTDocument \<Rightarrow> UJsonCRDTDocument" where
  "ApplyOperation Operation d =
     (case opType Operation of
        Add \<Rightarrow> d | Remove \<Rightarrow> d | Replace \<Rightarrow> d | Move \<Rightarrow> d | Copy \<Rightarrow> d | Test \<Rightarrow> d)"

definition OperationTypeName :: "EJsonCRDTOperationType \<Rightarrow> FString" where
  "OperationTypeName t =
     (case t of
        Add \<Rightarrow> ''Add'' | Remove \<Rightarrow> ''Remove'' | Replace \<Rightarrow> ''Replace''
      | Move \<Rightarrow> ''Move'' | Copy \<Rightarrow> ''Copy'' | Test \<Rightarrow> ''Test'')"

text \<open>
  \<open>UJsonCRDTDocument::LogOperation\<close>. The entry's \<open>Conflict\<close> member is default-constructed
  unless \<open>bHadConflict\<close>.
\<close>

definition MakeLogEntry ::
  "FJsonCRDTOperation \<Rightarrow> FJsonText \<Rightarrow> FString \<Rightarrow> bool \<Rightarrow> FJsonCRDTConflict \<Rightarrow>
   UJsonCRDTDocument \<Rightarrow> FJsonCRDTLogEntry" where
  "MakeLogEntry Operation OldValue NewValue bHadConflict Conflict d =
     \<lparr>logLogID = Guids d,
      logDocumentID = DocumentID d,
      logOperationType = OperationTypeName (opType Operation),
      logPath = opPath Operation,
      logOldValue = OldValue,
      logNewValue = NewValue,
      logTimestamp = Clock d,
      logbHadConflict = bHadConflict,
      logConflict = (if bHadConflict then Conflict else DefaultConflict (Clock d)),
      logClientID = opClientID Operation,
      logSource = ''Remote''\<rparr>"

definition LogOperation ::
  "FJsonCRDTOperation \<Rightarrow> FJsonText \<Rightarrow> FString \<Rightarrow> bool \<Rightarrow> FJsonCRDTConflict \<Rightarrow>
   UJsonCRDTDocument \<Rightarrow> UJsonCRDTDocument" where
  "LogOperation Operation OldValue NewValue bHadConflict Conflict d =
     (case Logger d of
        None \<Rightarrow> d
      | Some L \<Rightarrow>
          if \<not> bLoggingEnabled L then d
          else
            d\<lparr>Guids := Suc (Guids d),
              Logger :=
                Some (Logger_LogOperation
                        (MakeLogEntry Operation OldValue NewValue bHadConflict Conflict d) L)\<rparr>)"

text \<open>\<open>OperationHistory.Add\<close> followed by the removal of entry 0 when over capacity.\<close>

definition AddToHistory :: "FJsonCRDTOperation \<Rightarrow> UJsonCRDTDocument \<Rightarrow> UJsonCRDTDocument" where
  "AddToHistory Operation d =
     (let Added = OperationHistory d @ [Operation]
      in d\<lparr>OperationHistory :=
             (if int (length Added) > MaxOperationHistory d then tl Added else Added)\<rparr>)"

text \<open>
  The block of \<open>ApplyPatch\<close> run when \<open>ResolveConflict\<close> succeeds: apply the operation with
  the resolved value, notify, log with the conflict, add to the history.
\<close>

definition ApplyResolvedOperation ::
  "FJsonCRDTOperation \<Rightarrow> FJsonText \<Rightarrow> FJsonCRDTConflict \<Rightarrow> UJsonCRDTDocument \<Rightarrow>
   UJsonCRDTDocument" where
  "ApplyResolvedOperation Operation OldValue Conflict d =
     (let ResolvedOperation = Operation\<lparr>opValue := cResolvedValue Conflict\<rparr>;
          d1 = ApplyOperation ResolvedOperation d;
          d2 = d1\<lparr>Broadcasts := Broadcasts d1 @ [OnConflictDetected Conflict]\<rparr>;
          d3 = LogOperation ResolvedOperation OldValue (cResolvedValue Conflict) True Conflict d2
      in AddToHistory ResolvedOperation d3)"

text \<open>
  The inner \<open>for\<close> loop of \<open>ApplyPatch\<close> over \<open>i = OperationHistory.Num() - 1, ..., 0\<close>. The
  counter \<open>Suc i\<close> stands for the loop variable \<open>i\<close>, and \<open>0\<close> for the loop's end. The
  source's \<open>continue\<close> sits inside this loop, so after a resolved conflict the loop goes
  on with \<open>i - 1\<close>, reading the history as it is by then. \<open>bHadConflict\<close> and \<open>Conflict\<close>
  are declared outside the loop and keep their values between iterations. The range
  check of \<open>OperationHistory[i]\<close> is the guard \<open>i < length ...\<close>; it holds throughout, as
  the history never gets shorter than it was at the loop's start.
\<close>

fun ScanHistory ::
  "FJsonCRDTOperation \<Rightarrow> FJsonText \<Rightarrow> nat \<Rightarrow> bool \<times> FJsonCRDTConflict \<times> UJsonCRDTDocument \<Rightarrow>
   bool \<times> FJsonCRDTConflict \<times> UJsonCRDTDocument" where
  "ScanHistory Operation OldValue 0 acc = acc"
| "ScanHistory Operation OldValue (Suc i) (bHadConflict, Conflict, d) =
     (if \<not> i < length (OperationHistory d) then (bHadConflict, Conflict, d)
      else
        let LocalOperation = OperationHistory d ! i
        in if FString_Equals (opPath LocalOperation) (opPath Operation) \<and>
              opType LocalOperation = Replace \<and>
              \<not> FString_Equals (opValue LocalOperation) (opValue Operation)
           then
             (let Conflict1 =
                    Conflict\<lparr>cPath := opPath Operation,
                             cLocalValue := opValue LocalOperation,
                             cRemoteValue := opValue Operation,
                             cLocalOperation := LocalOperation,
                             cRemoteOperation := Operation\<rparr>
              in case ResolveConflict Conflict1 d of
                   (True, Conflict2, d1) \<Rightarrow>
                     ScanHistory Operation OldValue i
                       (True, Conflict2, ApplyResolvedOperation Operation OldValue Conflict2 d1)
                 | (False, Conflict2, d1) \<Rightarrow>
                     ScanHistory Operation OldValue i (True, Conflict2, d1))
           else ScanHistory Operation OldValue i (bHadConflict, Conflict, d))"

text \<open>The body of the outer loop of \<open>ApplyPatch\<close>, for one incoming operation.\<close>

definition ProcessOperation :: "FJsonCRDTOperation \<Rightarrow> UJsonCRDTDocument \<Rightarrow> UJsonCRDTDocument" where
  "ProcessOperation Operation d =
     (let OldValue =
            (if opType Operation = Replace \<or> opType Operation = Remove \<or>
                opType Operation = Test
             then (case GetValueAtPath (Some (Content d)) (opPath Operation) of
                     Some CurrentValue \<Rightarrow> Serialized CurrentValue
                   | None \<Rightarrow> PlainText [])
             else PlainText []);
          Scanned =
            (if opType Operation = Replace
             then ScanHistory Operation OldValue (length (OperationHistory d))
                    (False, DefaultConflict (Clock d), d)
             else (False, DefaultConflict (Clock d), d))
      in case Scanned of
           (bHadConflict, Conflict, d1) \<Rightarrow>
             if \<not> bHadConflict
             then
               let NewValue = opValue Operation;
                   d2 = ApplyOperation Operation d1;
                   d3 = LogOperation Operation OldValue NewValue False
                          (DefaultConflict (Clock d2)) d2
               in AddToHistory Operation d3
             else d1)"

definition ApplyPatch :: "FJsonCRDTPatch \<Rightarrow> UJsonCRDTDocument \<Rightarrow> bool \<times> UJsonCRDTDocument" where
  "ApplyPatch Patch d =
     (if \<not> FString_Equals (patchDocumentID Patch) (DocumentID d) then (False, d)
      else
        let d1 = foldl (\<lambda>s Operation. ProcessOperation Operation s) d (patchOperations Patch);
            d2 = d1\<lparr>Version := Version d1 + 1\<rparr>;
            d3 = CreateAndAddSnapshot d2
        in (True, NotifyDocumentChanged d3))"

section \<open>Concrete inputs\<close>

text \<open>
  Surroundings with an empty, writable file system, a freshly initialized document
  \<open>doc\<close> in them, \<open>Replace\<close> and \<open>Test\<close> operations on the path \<open>/a\<close>, and patches for
  the document.
\<close>

definition ExampleWorld :: World where
  "ExampleWorld =
     \<lparr>Clock = 0, Guids = 0, ProjectSavedDir = ''Saved'', Files = Map.empty,
      Directories = (\<lambda>_. False), bCanCreateDirectory = True, bCanSaveFile = True,
      bAddMovesSnapshotStorage = False, StaleVersionRead = 0,
      Broadcasts = []\<rparr>"

definition ExampleDocument :: UJsonCRDTDocument where
  "ExampleDocument = Initialize ''doc'' (NewDocument ExampleWorld)"

definition ExampleReplace :: "FString \<Rightarrow> FDateTime \<Rightarrow> FJsonCRDTOperation" where
  "ExampleReplace v t =
     \<lparr>opType = Replace, opPath = ''/a'', opFromPath = [], opValue = v, opTimestamp = t,
      opClientID = ''peer''\<rparr>"

definition ExampleTest :: "FString \<Rightarrow> FJsonCRDTOperation" where
  "ExampleTest v =
     \<lparr>opType = Test, opPath = ''/a'', opFromPath = [], opValue = v, opTimestamp = 0,
      opClientID = ''peer''\<rparr>"

definition ExamplePatch :: "FString \<Rightarrow> FJsonCRDTOperation list \<Rightarrow> FJsonCRDTPatch" where
  "ExamplePatch DocId Operations =
     \<lparr>patchDocumentID = DocId, patchBaseVersion = 1, patchOperations = Operations,
      patchTimestamp = 0, patchClientID = ''peer''\<rparr>"

definition ExampleConflict :: "FDateTime \<Rightarrow> FDateTime \<Rightarrow> FJsonCRDTConflict" where
  "ExampleConflict T1 T2 =
     \<lparr>cPath = ''/a'', cLocalValue = ''Y'', cRemoteValue = ''Z'',
      cLocalOperation = ExampleReplace ''Y'' T1, cRemoteOperation = ExampleReplace ''Z'' T2,
      cResolvedValue = [], cbResolved = False\<rparr>"

definition ExampleSavedDocument :: UJsonCRDTDocument where
  "ExampleSavedDocument = snd (SaveLocally ExampleDocument)"

definition ExampleObject :: FJsonObject where
  "ExampleObject = [(''a'', JArray [JString ''x'', JNull])]"

text \<open>
  Documents reached from \<open>ExampleDocument\<close>: after a patch of two \<open>Replace\<close> operations on
  \<open>/a\<close>; with the default resolver set to \<open>Custom\<close> and one \<open>Replace\<close> applied; after nine
  whole-content replacements.
\<close>

definition ExampleTwoReplaces :: UJsonCRDTDocument where
  "ExampleTwoReplaces =
     snd (ApplyPatch (ExamplePatch ''doc'' [ExampleReplace ''1'' 1, ExampleReplace ''2'' 2])
            ExampleDocument)"

definition ExampleCustomDocument :: UJsonCRDTDocument where
  "ExampleCustomDocument =
     snd (ApplyPatch (ExamplePatch ''doc'' [ExampleReplace ''1'' 1])
            (SetConflictStrategy Custom ExampleDocument))"

definition ExampleFullDocument :: UJsonCRDTDocument where
  "ExampleFullDocument = ((\<lambda>s. snd (SetContent (Some []) s)) ^^ 9) ExampleDocument"

section \<open>Derived notions used in the statements\<close>

text \<open>The entries the document's logger holds (none without a logger).\<close>

definition LoggedEntries :: "UJsonCRDTDocument \<Rightarrow> FJsonCRDTLogEntry list" where
  "LoggedEntries d = (case Logger d of None \<Rightarrow> [] | Some L \<Rightarrow> LogEntries L)"

text \<open>
  The parts \<open>GetValueAtPath\<close> splits a path into, and the two failures of a part at the
  value reached so far: a key the object lacks (\<open>HasField\<close> fails), an index outside the
  array.
\<close>

definition PathPartsOf :: "FString \<Rightarrow> FString list" where
  "PathPartsOf Path =
     ParseIntoArray (if take 1 Path = ''/'' then drop 1 Path else Path) (CHR ''/'')"

definition SegmentMissing :: "FJsonValue \<Rightarrow> FString \<Rightarrow> bool" where
  "SegmentMissing v Part =
     (case v of
        JObject Object \<Rightarrow> FindField Object (Unescape Part) = None
      | JArray Array \<Rightarrow>
          sint (Atoi (Unescape Part)) < 0 \<or> sint (Atoi (Unescape Part)) \<ge> int (length Array)
      | _ \<Rightarrow> False)"

text \<open>The conflict notifications among the notifications sent.\<close>

fun IsConflictDetected :: "Event \<Rightarrow> bool" where
  "IsConflictDetected (OnConflictDetected Conflict) = True"
| "IsConflictDetected _ = False"

text \<open>
  The old value \<open>ApplyPatch\<close> reads for an operation at a path, and the entries
  \<open>LogOperation\<close> builds for operations applied without a conflict, in order, each
  drawing one GUID.
\<close>

definition OldValueAt :: "UJsonCRDTDocument \<Rightarrow> FString \<Rightarrow> FJsonText" where
  "OldValueAt d Path =
     (case GetValueAtPath (Some (Content d)) Path of
        Some CurrentValue \<Rightarrow> Serialized CurrentValue
      | None \<Rightarrow> PlainText [])"

fun PlainLogEntries :: "UJsonCRDTDocument \<Rightarrow> FJsonCRDTOperation list \<Rightarrow> FJsonCRDTLogEntry list" where
  "PlainLogEntries d [] = []"
| "PlainLogEntries d (Operation # Operations) =
     MakeLogEntry Operation (OldValueAt d (opPath Operation)) (opValue Operation) False
       (DefaultConflict (Clock d)) d
     # PlainLogEntries (d\<lparr>Guids := Suc (Guids d)\<rparr>) Operations"

text \<open>\<open>Add\<close> followed by \<open>RemoveAt(0)\<close> when over capacity, on any list.\<close>

definition AddBounded :: "int \<Rightarrow> 'a list \<Rightarrow> 'a \<Rightarrow> 'a list" where
  "AddBounded cap xs x = (if int (length (xs @ [x])) > cap then tl (xs @ [x]) else xs @ [x])"

section \<open>The comparison of strings\<close>

lemma FString_Equals_refl [simp]: "FString_Equals a a"
  by (simp add: FString_Equals_def)

lemma FString_Equals_sym: "FString_Equals a b \<Longrightarrow> FString_Equals b a"
  by (simp add: FString_Equals_def)

lemma FString_Equals_trans:
  "FString_Equals a b \<Longrightarrow> FString_Equals b c \<Longrightarrow> FString_Equals a c"
  by (simp add: FString_Equals_def)

lemma FString_Equals_same: "a = b \<Longrightarrow> FString_Equals a b"
  by simp

section \<open>The engine's conversions\<close>

lemma ThroughDouble_exact:
  assumes "\<bar>sint v\<bar> < 2 ^ 53"
  shows "ThroughDouble v = v"
proof -
  have "DoubleUlp 11 \<bar>sint v\<bar> = 1"
    using assms by (simp add: eval_nat_numeral)
  then have "RoundToDouble (sint v) = sgn (sint v) * \<bar>sint v\<bar>"
    by (simp add: RoundToDouble_def Let_def)
  then have "RoundToDouble (sint v) = sint v"
    by (simp add: mult_sgn_abs)
  then show ?thesis
    by (simp add: ThroughDouble_def)
qed

lemma ThroughDouble_rounds: "ThroughDouble (2 ^ 53 + 1) = 2 ^ 53"
  by code_simp

lemma Atoi_examples:
  "sint (Atoi ''5'') = 5" "sint (Atoi '' -12x'') = - 12" "sint (Atoi ''abc'') = 0"
  "sint (Atoi ''4294967297'') = 1"
  by code_simp+

section \<open>What each step leaves unchanged\<close>

lemma SaveLocally_frame [simp]:
  "Version (snd (SaveLocally d)) = Version d"
  "Content (snd (SaveLocally d)) = Content d"
  "DocumentID (snd (SaveLocally d)) = DocumentID d"
  "OperationHistory (snd (SaveLocally d)) = OperationHistory d"
  "SnapshotHistory (snd (SaveLocally d)) = SnapshotHistory d"
  "MaxOperationHistory (snd (SaveLocally d)) = MaxOperationHistory d"
  "MaxSnapshotHistory (snd (SaveLocally d)) = MaxSnapshotHistory d"
  "Logger (snd (SaveLocally d)) = Logger d"
  "Clock (snd (SaveLocally d)) = Clock d"
  "Guids (snd (SaveLocally d)) = Guids d"
  "Broadcasts (snd (SaveLocally d)) = Broadcasts d"
  "bAutoLocalSave (snd (SaveLocally d)) = bAutoLocalSave d"
  "ConflictResolver (snd (SaveLocally d)) = ConflictResolver d"
  "ConflictStrategy (snd (SaveLocally d)) = ConflictStrategy d"
  by (simp_all add: SaveLocally_def SetLastErrorMessage_def Let_def)

lemma NotifyDocumentChanged_frame [simp]:
  "Version (NotifyDocumentChanged d) = Version d"
  "Content (NotifyDocumentChanged d) = Content d"
  "DocumentID (NotifyDocumentChanged d) = DocumentID d"
  "OperationHistory (NotifyDocumentChanged d) = OperationHistory d"
  "SnapshotHistory (NotifyDocumentChanged d) = SnapshotHistory d"
  "MaxOperationHistory (NotifyDocumentChanged d) = MaxOperationHistory d"
  "MaxSnapshotHistory (NotifyDocumentChanged d) = MaxSnapshotHistory d"
  "Logger (NotifyDocumentChanged d) = Logger d"
  "Clock (NotifyDocumentChanged d) = Clock d"
  "Guids (NotifyDocumentChanged d) = Guids d"
  "Broadcasts (NotifyDocumentChanged d) = Broadcasts d @ [OnDocumentChanged (DocumentID d)]"
  "bAutoLocalSave (NotifyDocumentChanged d) = bAutoLocalSave d"
  "ConflictResolver (NotifyDocumentChanged d) = ConflictResolver d"
  "ConflictStrategy (NotifyDocumentChanged d) = ConflictStrategy d"
  by (simp_all add: NotifyDocumentChanged_def Let_def)

lemma SetLastErrorMessage_frame [simp]:
  "Version (SetLastErrorMessage m d) = Version d"
  "Content (SetLastErrorMessage m d) = Content d"
  "DocumentID (SetLastErrorMessage m d) = DocumentID d"
  "OperationHistory (SetLastErrorMessage m d) = OperationHistory d"
  "SnapshotHistory (SetLastErrorMessage m d) = SnapshotHistory d"
  "MaxSnapshotHistory (SetLastErrorMessage m d) = MaxSnapshotHistory d"
  "Logger (SetLastErrorMessage m d) = Logger d"
  "Broadcasts (SetLastErrorMessage m d) = Broadcasts d"
  "bAddMovesSnapshotStorage (SetLastErrorMessage m d) = bAddMovesSnapshotStorage d"
  "LastErrorMessage (SetLastErrorMessage m d) = m"
  by (simp_all add: SetLastErrorMessage_def)

lemma CreateAndAddSnapshot_frame [simp]:
  "Version (CreateAndAddSnapshot d) = Version d"
  "Content (CreateAndAddSnapshot d) = Content d"
  "DocumentID (CreateAndAddSnapshot d) = DocumentID d"
  "OperationHistory (CreateAndAddSnapshot d) = OperationHistory d"
  "MaxOperationHistory (CreateAndAddSnapshot d) = MaxOperationHistory d"
  "MaxSnapshotHistory (CreateAndAddSnapshot d) = MaxSnapshotHistory d"
  "Logger (CreateAndAddSnapshot d) = Logger d"
  "Clock (CreateAndAddSnapshot d) = Clock d"
  "Guids (CreateAndAddSnapshot d) = Guids d"
  "Broadcasts (CreateAndAddSnapshot d) = Broadcasts d"
  "bAutoLocalSave (CreateAndAddSnapshot d) = bAutoLocalSave d"
  by (simp_all add: CreateAndAddSnapshot_def Let_def)

lemma ScanHistory_preserves:
  assumes resolve: "\<And>c s. Q s \<Longrightarrow> Q (snd (snd (ResolveConflict c s)))"
      and resolved: "\<And>c s. Q s \<Longrightarrow> Q (ApplyResolvedOperation Operation OldValue c s)"
      and start: "Q d"
  shows "Q (snd (snd (ScanHistory Operation OldValue n (b, c, d))))"
  using start
proof (induction n arbitrary: b c d)
  case 0
  then show ?case by simp
next
  case (Suc n)
  let ?c1 = "c\<lparr>cPath := opPath Operation, cLocalValue := opValue (OperationHistory d ! n),
              cRemoteValue := opValue Operation, cLocalOperation := OperationHistory d ! n,
              cRemoteOperation := Operation\<rparr>"
  obtain ok c2 d1 where rc: "ResolveConflict ?c1 d = (ok, c2, d1)"
    by (cases "ResolveConflict ?c1 d") auto
  have q1: "Q d1"
    using resolve [OF Suc.prems, of ?c1] rc by simp
  have q2: "Q (ApplyResolvedOperation Operation OldValue c2 d1)"
    using resolved [OF q1] .
  show ?case
    using Suc.IH [OF q1] Suc.IH [OF q2] Suc.IH [OF Suc.prems] Suc.prems rc
    by (cases ok) (simp_all add: Let_def)
qed

lemma ApplyOperation_id [simp]: "ApplyOperation Operation d = d"
  by (simp add: ApplyOperation_def split: EJsonCRDTOperationType.splits)

lemma ProcessOperation_preserves:
  assumes resolve: "\<And>c s. Q s \<Longrightarrow> Q (snd (snd (ResolveConflict c s)))"
      and resolved: "\<And>old c s. Q s \<Longrightarrow> Q (ApplyResolvedOperation Operation old c s)"
      and plain: "\<And>old s. Q s \<Longrightarrow>
             Q (AddToHistory Operation
                  (LogOperation Operation old (opValue Operation) False
                     (DefaultConflict (Clock s)) s))"
      and start: "Q d"
  shows "Q (ProcessOperation Operation d)"
proof (cases "opType Operation = Replace")
  case False
  then show ?thesis
    using plain [OF start] by (simp add: ProcessOperation_def Let_def)
next
  case True
  define old where "old =
    (case GetValueAtPath (Some (Content d)) (opPath Operation) of
       Some CurrentValue \<Rightarrow> Serialized CurrentValue
     | None \<Rightarrow> PlainText [])"
  obtain b c d1 where sc:
    "ScanHistory Operation old (length (OperationHistory d))
       (False, DefaultConflict (Clock d), d) = (b, c, d1)"
    using prod_cases3 by blast
  have q1: "Q d1"
    using ScanHistory_preserves [of Q Operation old d "length (OperationHistory d)" False
            "DefaultConflict (Clock d)", OF resolve resolved start] sc
    by simp
  show ?thesis
    using True sc q1 plain [OF q1, of old]
    by (simp add: ProcessOperation_def Let_def old_def)
qed

lemma foldl_ProcessOperation_preserves:
  assumes "\<And>Operation s. Q s \<Longrightarrow> Q (ProcessOperation Operation s)"
      and "Q d"
  shows "Q (foldl (\<lambda>s Operation. ProcessOperation Operation s) d Operations)"
  using assms(2)
  by (induction Operations arbitrary: d) (simp_all add: assms(1))

lemma ResolveConflict_frame [simp]:
  "Version (snd (snd (ResolveConflict c d))) = Version d"
  "Content (snd (snd (ResolveConflict c d))) = Content d"
  "DocumentID (snd (snd (ResolveConflict c d))) = DocumentID d"
  "OperationHistory (snd (snd (ResolveConflict c d))) = OperationHistory d"
  "SnapshotHistory (snd (snd (ResolveConflict c d))) = SnapshotHistory d"
  "MaxOperationHistory (snd (snd (ResolveConflict c d))) = MaxOperationHistory d"
  "Logger (snd (snd (ResolveConflict c d))) = Logger d"
  "Clock (snd (snd (ResolveConflict c d))) = Clock d"
  "Guids (snd (snd (ResolveConflict c d))) = Guids d"
  "Broadcasts (snd (snd (ResolveConflict c d))) = Broadcasts d"
  by (simp_all add: ResolveConflict_def Let_def split: option.splits prod.splits)

lemma LogOperation_frame [simp]:
  "Version (LogOperation op old new b c d) = Version d"
  "Content (LogOperation op old new b c d) = Content d"
  "DocumentID (LogOperation op old new b c d) = DocumentID d"
  "OperationHistory (LogOperation op old new b c d) = OperationHistory d"
  "SnapshotHistory (LogOperation op old new b c d) = SnapshotHistory d"
  "MaxOperationHistory (LogOperation op old new b c d) = MaxOperationHistory d"
  "Clock (LogOperation op old new b c d) = Clock d"
  "Broadcasts (LogOperation op old new b c d) = Broadcasts d"
  by (simp_all add: LogOperation_def split: option.splits)

lemma AddToHistory_frame [simp]:
  "Version (AddToHistory op d) = Version d"
  "Content (AddToHistory op d) = Content d"
  "DocumentID (AddToHistory op d) = DocumentID d"
  "SnapshotHistory (AddToHistory op d) = SnapshotHistory d"
  "MaxOperationHistory (AddToHistory op d) = MaxOperationHistory d"
  "Logger (AddToHistory op d) = Logger d"
  "Clock (AddToHistory op d) = Clock d"
  "Guids (AddToHistory op d) = Guids d"
  "Broadcasts (AddToHistory op d) = Broadcasts d"
  by (simp_all add: AddToHistory_def Let_def)

lemma AddToHistory_length:
  "length (OperationHistory d) \<le> length (OperationHistory (AddToHistory Operation d))"
  by (simp add: AddToHistory_def Let_def)

lemma ApplyResolvedOperation_length:
  "length (OperationHistory d)
     \<le> length (OperationHistory (ApplyResolvedOperation Operation OldValue Conflict d))"
  using AddToHistory_length
  by (simp add: ApplyResolvedOperation_def Let_def AddToHistory_def)

lemma ApplyResolvedOperation_frame [simp]:
  "Version (ApplyResolvedOperation op old c d) = Version d"
  "Content (ApplyResolvedOperation op old c d) = Content d"
  "DocumentID (ApplyResolvedOperation op old c d) = DocumentID d"
  "SnapshotHistory (ApplyResolvedOperation op old c d) = SnapshotHistory d"
  "MaxOperationHistory (ApplyResolvedOperation op old c d) = MaxOperationHistory d"
  "Clock (ApplyResolvedOperation op old c d) = Clock d"
  "Broadcasts (ApplyResolvedOperation op old c d) = Broadcasts d @ [OnConflictDetected c]"
  by (simp_all add: ApplyResolvedOperation_def Let_def)

lemma ProcessOperation_Version [simp]: "Version (ProcessOperation op d) = Version d"
  by (rule ProcessOperation_preserves [where Q = "\<lambda>s. Version s = Version d"]) simp_all

lemma ProcessOperation_Content [simp]: "Content (ProcessOperation op d) = Content d"
  by (rule ProcessOperation_preserves [where Q = "\<lambda>s. Content s = Content d"]) simp_all

lemma ProcessOperation_SnapshotHistory [simp]:
  "SnapshotHistory (ProcessOperation op d) = SnapshotHistory d"
  by (rule ProcessOperation_preserves [where Q = "\<lambda>s. SnapshotHistory s = SnapshotHistory d"])
     simp_all

lemma foldl_ProcessOperation_Version [simp]:
  "Version (foldl (\<lambda>s Operation. ProcessOperation Operation s) d Operations) = Version d"
  by (rule foldl_ProcessOperation_preserves [where Q = "\<lambda>s. Version s = Version d"]) simp_all

lemma foldl_ProcessOperation_Content [simp]:
  "Content (foldl (\<lambda>s Operation. ProcessOperation Operation s) d Operations) = Content d"
  by (rule foldl_ProcessOperation_preserves [where Q = "\<lambda>s. Content s = Content d"]) simp_all

lemma ApplyPatch_Version:
  "FString_Equals (patchDocumentID Patch) (DocumentID d) \<Longrightarrow>
   Version (snd (ApplyPatch Patch d)) = Version d + 1"
  by (simp add: ApplyPatch_def Let_def)

lemma ApplyPatch_Content: "Content (snd (ApplyPatch Patch d)) = Content d"
  by (simp add: ApplyPatch_def Let_def)

lemma sint_Suc_int64:
  assumes "sint (v :: int64) < 2 ^ 63 - 1"
  shows "sint (v + 1) = sint v + 1"
proof -
  have "sint (v + 1) = signed_take_bit 63 (sint v + 1)"
    by (simp add: sint_word_ariths)
  also have "\<dots> = sint v + 1"
    using sint_ge [of v] assms by (intro signed_take_bit_int_eq_self) simp_all
  finally show ?thesis .
qed

lemma ExampleDocument_facts:
  "DocumentID ExampleDocument = ''doc''"
  "Version ExampleDocument = 1"
  "OperationHistory ExampleDocument = []"
  "MaxOperationHistory ExampleDocument = 100"
  "Content ExampleDocument = []"
  "bAutoLocalSave ExampleDocument = False"
  "Logger ExampleDocument = Some \<lparr>LogEntries = [], MaxLogEntries = 1000, bLoggingEnabled = True\<rparr>"
  by (simp_all add: ExampleDocument_def Initialize_def NewDocument_def ExampleWorld_def)

section \<open>The default resolver's last-writer-wins strategy\<close>

text \<open>
  C7. Under \<open>LastWriterWins\<close> the default resolver always succeeds and marks the conflict
  resolved; the resolved value is the local value when the local operation's timestamp
  is greater than the remote one's, and the remote value otherwise, a tie included. For
  two different values this makes "resolved to local" equivalent to \<open>T1 > T2\<close>. Nothing
  else of the conflict changes, and for a conflict built from two operations, as
  \<open>ApplyPatch\<close> builds it, the resolved value is a function of those operations alone.
\<close>

theorem C7_LastWriterWins:
  "(let T1 = opTimestamp (cLocalOperation c);
        T2 = opTimestamp (cRemoteOperation c);
        r = Resolver_ResolveConflict (FJsonCRDTDefaultConflictResolver LastWriterWins) c
    in fst r = True \<and>
       cbResolved (snd r) = True \<and>
       (T1 > T2 \<longrightarrow> cResolvedValue (snd r) = cLocalValue c) \<and>
       (T1 \<le> T2 \<longrightarrow> cResolvedValue (snd r) = cRemoteValue c) \<and>
       (cLocalValue c \<noteq> cRemoteValue c \<longrightarrow>
          (cResolvedValue (snd r) = cLocalValue c \<longleftrightarrow> T1 > T2)) \<and>
       snd r = c\<lparr>cResolvedValue := cResolvedValue (snd r), cbResolved := True\<rparr> \<and>
       (cLocalValue c = opValue (cLocalOperation c) \<and>
        cRemoteValue c = opValue (cRemoteOperation c) \<longrightarrow>
          cResolvedValue (snd r) =
            (if T1 > T2 then opValue (cLocalOperation c) else opValue (cRemoteOperation c))))"
  by (simp add: ResolveLastWriterWins_def Let_def)

theorem C7_LastWriterWins_witness:
  "cResolvedValue
     (snd (Resolver_ResolveConflict (FJsonCRDTDefaultConflictResolver LastWriterWins)
             (ExampleConflict 5 3))) = ''Y'' \<and>
   cResolvedValue
     (snd (Resolver_ResolveConflict (FJsonCRDTDefaultConflictResolver LastWriterWins)
             (ExampleConflict 4 4))) = ''Z'' \<and>
   cLocalValue (ExampleConflict 5 3) \<noteq> cRemoteValue (ExampleConflict 5 3)"
proof -
  have later: "opTimestamp (cLocalOperation (ExampleConflict 5 3))
                 > opTimestamp (cRemoteOperation (ExampleConflict 5 3))"
    by (simp add: ExampleConflict_def ExampleReplace_def)
  have tie: "opTimestamp (cLocalOperation (ExampleConflict 4 4))
               \<le> opTimestamp (cRemoteOperation (ExampleConflict 4 4))"
    by (simp add: ExampleConflict_def ExampleReplace_def)
  have vals: "cLocalValue (ExampleConflict 5 3) = ''Y''"
    "cRemoteValue (ExampleConflict 4 4) = ''Z''"
    "cRemoteValue (ExampleConflict 5 3) = ''Z''"
    by (simp_all add: ExampleConflict_def)
  show ?thesis
    using C7_LastWriterWins [of "ExampleConflict 5 3"]
          C7_LastWriterWins [of "ExampleConflict 4 4"] later tie vals
    by (simp add: Let_def)
qed

section \<open>Validation of the patch's document id\<close>

text \<open>
  C8, as the spec states it, fails for ids that differ in letter case only: the patch
  with id \<open>DOC\<close> is applied to the document \<open>doc\<close>, which returns success and moves the
  version from 1 to 2, although the two ids differ.
\<close>

theorem C8_id_differing_in_case_counterexample:
  "patchDocumentID (ExamplePatch ''DOC'' [ExampleReplace ''1'' 1]) \<noteq> DocumentID ExampleDocument \<and>
   fst (ApplyPatch (ExamplePatch ''DOC'' [ExampleReplace ''1'' 1]) ExampleDocument) = True \<and>
   Version ExampleDocument = 1 \<and>
   Version (snd (ApplyPatch (ExamplePatch ''DOC'' [ExampleReplace ''1'' 1]) ExampleDocument)) = 2 \<and>
   length (OperationHistory
     (snd (ApplyPatch (ExamplePatch ''DOC'' [ExampleReplace ''1'' 1]) ExampleDocument))) = 1"
proof -
  have eq: "FString_Equals (patchDocumentID (ExamplePatch ''DOC'' [ExampleReplace ''1'' 1]))
              (DocumentID ExampleDocument)"
    by code_simp
  have hist: "length (OperationHistory
     (snd (ApplyPatch (ExamplePatch ''DOC'' [ExampleReplace ''1'' 1]) ExampleDocument))) = 1"
    by code_simp
  show ?thesis
    using ApplyPatch_Version [OF eq] eq hist
    by (simp add: ApplyPatch_def Let_def ExamplePatch_def ExampleDocument_facts)
qed

text \<open>
  C8, amended. \<open>ApplyPatch\<close> fails exactly when the patch's document id and the
  document's differ under the comparison of \<open>FString\<close>s, which ignores the case of
  letters. On that failure nothing changes: content, version, operation history and
  snapshot history are as before (the whole state is). A patch whose id equals the
  document's under that comparison succeeds whatever its base version and operations
  are.
\<close>

theorem C8_ApplyPatch_fails_iff_id_differs:
  "(fst (ApplyPatch Patch d) = False \<longleftrightarrow>
      \<not> FString_Equals (patchDocumentID Patch) (DocumentID d)) \<and>
   (\<not> FString_Equals (patchDocumentID Patch) (DocumentID d) \<longrightarrow>
      snd (ApplyPatch Patch d) = d \<and>
      Content (snd (ApplyPatch Patch d)) = Content d \<and>
      Version (snd (ApplyPatch Patch d)) = Version d \<and>
      OperationHistory (snd (ApplyPatch Patch d)) = OperationHistory d \<and>
      SnapshotHistory (snd (ApplyPatch Patch d)) = SnapshotHistory d) \<and>
   (FString_Equals (patchDocumentID Patch) (DocumentID d) \<longrightarrow>
      fst (ApplyPatch (Patch\<lparr>patchBaseVersion := b, patchOperations := Operations\<rparr>) d) = True)"
  by (simp add: ApplyPatch_def Let_def)

theorem C8_ApplyPatch_fails_iff_id_differs_witness:
  "\<not> FString_Equals (patchDocumentID (ExamplePatch ''other'' [ExampleReplace ''1'' 1]))
       (DocumentID ExampleDocument) \<and>
   fst (ApplyPatch (ExamplePatch ''other'' [ExampleReplace ''1'' 1]) ExampleDocument) = False \<and>
   snd (ApplyPatch (ExamplePatch ''other'' [ExampleReplace ''1'' 1]) ExampleDocument)
     = ExampleDocument \<and>
   FString_Equals (patchDocumentID (ExamplePatch ''Doc'' [ExampleReplace ''1'' 1]))
     (DocumentID ExampleDocument) \<and>
   fst (ApplyPatch (ExamplePatch ''Doc'' [ExampleReplace ''1'' 1]) ExampleDocument) = True"
proof -
  have differs: "\<not> FString_Equals (patchDocumentID (ExamplePatch ''other'' [ExampleReplace ''1'' 1]))
                     (DocumentID ExampleDocument)"
    by (simp add: ExampleDocument_facts ExamplePatch_def FString_Equals_def)
  have same: "FString_Equals (patchDocumentID (ExamplePatch ''Doc'' [ExampleReplace ''1'' 1]))
                (DocumentID ExampleDocument)"
    by code_simp
  show ?thesis
    using C8_ApplyPatch_fails_iff_id_differs
            [of "ExamplePatch ''other'' [ExampleReplace ''1'' 1]" ExampleDocument]
          C8_ApplyPatch_fails_iff_id_differs
            [where Patch = "ExamplePatch ''Doc'' [ExampleReplace ''1'' 1]"
               and d = ExampleDocument and b = 1 and Operations = "[ExampleReplace ''1'' 1]"]
          differs same
    by (simp add: ExamplePatch_def)
qed

section \<open>The document after nine whole-content replacements\<close>

lemma SetContent_adds_snapshot:
  assumes "\<not> bAutoLocalSave d" and "int (length (SnapshotHistory d)) < MaxSnapshotHistory d"
  shows "snd (SetContent (Some Object) d) =
           d\<lparr>Content := Object, Version := Version d + 1,
             SnapshotHistory := SnapshotHistory d @
               [\<lparr>snapDocumentID = DocumentID d, snapVersion = Version d + 1,
                 snapTimestamp = Clock d, snapContent = Serialized (JObject Object)\<rparr>],
             Broadcasts := Broadcasts d @ [OnDocumentChanged (DocumentID d)]\<rparr>"
  using assms
  by (simp add: SetContent_def NotifyDocumentChanged_def CreateAndAddSnapshot_def
        CreateSnapshot_def GetContentAsString_def Let_def)

lemma SetContent_repeated:
  "n \<le> 9 \<Longrightarrow>
   length (SnapshotHistory (((\<lambda>s. snd (SetContent (Some []) s)) ^^ n) ExampleDocument)) = Suc n \<and>
   MaxSnapshotHistory (((\<lambda>s. snd (SetContent (Some []) s)) ^^ n) ExampleDocument) = 10 \<and>
   \<not> bAutoLocalSave (((\<lambda>s. snd (SetContent (Some []) s)) ^^ n) ExampleDocument) \<and>
   DocumentID (((\<lambda>s. snd (SetContent (Some []) s)) ^^ n) ExampleDocument) = ''doc'' \<and>
   snapDocumentID (last (SnapshotHistory
     (((\<lambda>s. snd (SetContent (Some []) s)) ^^ n) ExampleDocument))) = ''doc'' \<and>
   bCanSaveFile (((\<lambda>s. snd (SetContent (Some []) s)) ^^ n) ExampleDocument) \<and>
   bCanCreateDirectory (((\<lambda>s. snd (SetContent (Some []) s)) ^^ n) ExampleDocument) \<and>
   Version (((\<lambda>s. snd (SetContent (Some []) s)) ^^ n) ExampleDocument) = of_nat (Suc n) \<and>
   snapVersion (last (SnapshotHistory
     (((\<lambda>s. snd (SetContent (Some []) s)) ^^ n) ExampleDocument))) = of_nat (Suc n) \<and>
   snapContent (last (SnapshotHistory
     (((\<lambda>s. snd (SetContent (Some []) s)) ^^ n) ExampleDocument))) = Serialized (JObject []) \<and>
   Files (((\<lambda>s. snd (SetContent (Some []) s)) ^^ n) ExampleDocument) = Map.empty \<and>
   \<not> bAddMovesSnapshotStorage (((\<lambda>s. snd (SetContent (Some []) s)) ^^ n) ExampleDocument)"
proof (induction n)
  case 0
  show ?case
    by (simp add: ExampleDocument_def Initialize_def NewDocument_def ExampleWorld_def
          CreateAndAddSnapshot_def CreateSnapshot_def GetContentAsString_def Let_def)
next
  case (Suc n)
  let ?s = "((\<lambda>s. snd (SetContent (Some []) s)) ^^ n) ExampleDocument"
  have ih: "length (SnapshotHistory ?s) = Suc n" "MaxSnapshotHistory ?s = 10"
    "\<not> bAutoLocalSave ?s" "DocumentID ?s = ''doc''" "bCanSaveFile ?s" "bCanCreateDirectory ?s"
    "Version ?s = of_nat (Suc n)" "Files ?s = Map.empty" "\<not> bAddMovesSnapshotStorage ?s"
    using Suc by simp_all
  have room: "int (length (SnapshotHistory ?s)) < MaxSnapshotHistory ?s"
    using ih Suc.prems by simp
  show ?case
    using ih by (simp add: SetContent_adds_snapshot [OF ih(3) room])
qed

lemma ExampleFullDocument_facts:
  "length (SnapshotHistory ExampleFullDocument) = 10"
  "MaxSnapshotHistory ExampleFullDocument = 10"
  "DocumentID ExampleFullDocument = ''doc''"
  "snapDocumentID (last (SnapshotHistory ExampleFullDocument)) = ''doc''"
  "bCanSaveFile ExampleFullDocument"
  "bCanCreateDirectory ExampleFullDocument"
  "Version ExampleFullDocument = 10"
  "snapVersion (last (SnapshotHistory ExampleFullDocument)) = 10"
  "snapContent (last (SnapshotHistory ExampleFullDocument)) = Serialized (JObject [])"
  "Files ExampleFullDocument = Map.empty"
  "\<not> bAddMovesSnapshotStorage ExampleFullDocument"
  using SetContent_repeated [of 9] by (simp_all add: ExampleFullDocument_def)

section \<open>Version bookkeeping\<close>

text \<open>
  What holds of the version for every state: a successful \<open>SetContent\<close> and a successful
  \<open>ApplyPatch\<close> each leave it one higher, and a successful \<open>RestoreFromSnapshot\<close> of a
  snapshot outside the document's arrays leaves the snapshot's version.
\<close>

lemma Version_after_calls:
  "fst (SetContent JsonObject d) \<Longrightarrow> Version (snd (SetContent JsonObject d)) = Version d + 1"
  "fst (ApplyPatch Patch d) \<Longrightarrow> Version (snd (ApplyPatch Patch d)) = Version d + 1"
  "fst (RestoreFromSnapshot (Temporary Snapshot) d) \<Longrightarrow>
     Version (snd (RestoreFromSnapshot (Temporary Snapshot) d)) = snapVersion Snapshot"
  by (auto simp: SetContent_def ApplyPatch_def Let_def RestoreFromSnapshot_def
        ReadSnapshot_def ReadVersionLater_def
        split: option.splits prod.splits bool.splits if_splits)

text \<open>
  Through the reference \<open>RecoverDocument\<close> passes, a restore at a full snapshot history
  ends one version above the document's: the slot the reference points into holds, by
  the time the version is read, the snapshot the restore itself has just added.
\<close>

lemma RestoreFromSnapshot_LastOfHistory_full:
  assumes full: "int (length (SnapshotHistory d)) = MaxSnapshotHistory d"
      and ne: "SnapshotHistory d \<noteq> []"
      and stay: "\<not> bAddMovesSnapshotStorage d"
      and id: "FString_Equals (snapDocumentID (last (SnapshotHistory d))) (DocumentID d)"
      and parse: "Deserialize (snapContent (last (SnapshotHistory d))) = Some Object"
  shows "fst (RestoreFromSnapshot LastOfHistory d)"
    and "Version (snd (RestoreFromSnapshot LastOfHistory d)) = Version d + 1"
proof -
  let ?d' = "d\<lparr>Content := Object, Version := Version d + 1\<rparr>"
  let ?c = "CreateAndAddSnapshot ?d'"
  let ?d1 = "NotifyDocumentChanged ?c"
  let ?n = "length (SnapshotHistory d)"
  have pos: "0 < ?n"
    using ne by simp
  have set: "SetContentFromString (snapContent (last (SnapshotHistory d))) d = (True, ?d1)"
    by (simp add: SetContentFromString_def SetContent_def parse)
  have hist: "SnapshotHistory ?c = drop 1 (SnapshotHistory d @ [CreateSnapshot ?d'])"
    using full by (simp add: CreateAndAddSnapshot_def Let_def)
  have len: "length (SnapshotHistory ?c) = ?n"
    unfolding hist by simp
  have "drop 1 (SnapshotHistory d @ [CreateSnapshot ?d']) ! (?n - 1)
          = (SnapshotHistory d @ [CreateSnapshot ?d']) ! (1 + (?n - 1))"
    by (rule nth_drop) simp
  also have "1 + (?n - 1) = ?n"
    using pos by simp
  also have "(SnapshotHistory d @ [CreateSnapshot ?d']) ! ?n = CreateSnapshot ?d'"
    by simp
  finally have slot: "SnapshotHistory ?c ! (?n - 1) = CreateSnapshot ?d'"
    unfolding hist .
  have late: "ReadVersionLater LastOfHistory d ?d1 = Version d + 1"
    using stay pos len slot by (simp add: ReadVersionLater_def Let_def CreateSnapshot_def)
  have res: "RestoreFromSnapshot LastOfHistory d
               = (True, NotifyDocumentChanged (?d1\<lparr>Version := Version d + 1\<rparr>))"
    using ne id set late by (simp add: RestoreFromSnapshot_def ReadSnapshot_def)
  show "fst (RestoreFromSnapshot LastOfHistory d)"
    by (simp add: res)
  show "Version (snd (RestoreFromSnapshot LastOfHistory d)) = Version d + 1"
    by (simp add: res)
qed

text \<open>
  C6 at a concrete input. After \<open>Initialize\<close> and nine calls of \<open>SetContent\<close> the document
  has version 10, ten snapshots and no local file; its newest snapshot records version
  10. \<open>RecoverDocument\<close> fails to load, restores from that snapshot with success, and
  leaves version 11: the restore has raised the version instead of leaving the
  snapshot's.
\<close>

theorem C6_restore_in_RecoverDocument_raises_version:
  "length (SnapshotHistory ExampleFullDocument) = 10 \<and>
   Version ExampleFullDocument = 10 \<and>
   snapVersion (last (SnapshotHistory ExampleFullDocument)) = 10 \<and>
   \<not> fst (LoadFromLocal ExampleFullDocument) \<and>
   fst (RestoreFromSnapshot LastOfHistory ExampleFullDocument) \<and>
   Version (snd (RestoreFromSnapshot LastOfHistory ExampleFullDocument)) = 11 \<and>
   fst (RecoverDocument ExampleFullDocument) \<and>
   Version (snd (RecoverDocument ExampleFullDocument)) = 11"
proof -
  note f = ExampleFullDocument_facts
  define m where
    "m = ''Local file does not exist: '' @ GetLocalStoragePath ExampleFullDocument"
  let ?d1 = "SetLastErrorMessage m ExampleFullDocument"
  have load: "LoadFromLocal ExampleFullDocument = (False, ?d1)"
    unfolding m_def by (simp add: LoadFromLocal_def Let_def f)
  have ne: "SnapshotHistory ExampleFullDocument \<noteq> []"
    using f(1) by auto
  have parse: "Deserialize (snapContent (last (SnapshotHistory ExampleFullDocument))) = Some []"
    by (simp add: f)
  have r0: "fst (RestoreFromSnapshot LastOfHistory ExampleFullDocument)"
           "Version (snd (RestoreFromSnapshot LastOfHistory ExampleFullDocument))
              = Version ExampleFullDocument + 1"
    by (rule RestoreFromSnapshot_LastOfHistory_full [where Object = "[]"];
        simp add: f ne)+
  have r1: "fst (RestoreFromSnapshot LastOfHistory ?d1)"
           "Version (snd (RestoreFromSnapshot LastOfHistory ?d1)) = Version ?d1 + 1"
    by (rule RestoreFromSnapshot_LastOfHistory_full [where Object = "[]"];
        simp add: f ne)+
  obtain d2 where rs: "RestoreFromSnapshot LastOfHistory ?d1 = (True, d2)"
    using r1(1) by (cases "RestoreFromSnapshot LastOfHistory ?d1") auto
  have v2: "Version d2 = 11"
    using r1(2) rs by (simp add: f)
  have ne1: "SnapshotHistory ?d1 \<noteq> []"
    using ne by simp
  have rec: "RecoverDocument ExampleFullDocument =
               (True, d2\<lparr>Broadcasts := Broadcasts d2 @ [OnDocumentRecovered (DocumentID d2) ''Snapshot'']\<rparr>)"
    using ne1 by (simp add: RecoverDocument_def load rs)
  show ?thesis
    using r0 v2 by (simp add: f load rec)
qed

section \<open>The source of a log entry\<close>

lemma LoggedEntries_LogOperation:
  "set (LoggedEntries (LogOperation op old new b c d))
     \<subseteq> set (LoggedEntries d) \<union> {e. logSource e = ''Remote''}"
proof -
  have tl_sub: "set (tl xs) \<subseteq> set xs" for xs :: "FJsonCRDTLogEntry list"
    by (cases xs) auto
  show ?thesis
    using tl_sub
    by (auto simp: LoggedEntries_def LogOperation_def Logger_LogOperation_def MakeLogEntry_def
          Let_def split: option.splits dest: list.set_sel(2) [rotated])
qed

lemma LoggedEntries_frame [simp]:
  "LoggedEntries (AddToHistory op d) = LoggedEntries d"
  "LoggedEntries (snd (snd (ResolveConflict c d))) = LoggedEntries d"
  "LoggedEntries (CreateAndAddSnapshot d) = LoggedEntries d"
  "LoggedEntries (NotifyDocumentChanged d) = LoggedEntries d"
  "LoggedEntries (d\<lparr>Broadcasts := bs\<rparr>) = LoggedEntries d"
  "LoggedEntries (d\<lparr>Version := v\<rparr>) = LoggedEntries d"
  by (simp_all add: LoggedEntries_def)

lemma LoggedEntries_ApplyResolvedOperation:
  "set (LoggedEntries (ApplyResolvedOperation op old c d))
     \<subseteq> set (LoggedEntries d) \<union> {e. logSource e = ''Remote''}"
  using LoggedEntries_LogOperation
          [of "op\<lparr>opValue := cResolvedValue c\<rparr>" old "cResolvedValue c" True c
              "d\<lparr>Broadcasts := Broadcasts d @ [OnConflictDetected c]\<rparr>"]
  by (simp add: ApplyResolvedOperation_def Let_def)

lemma LoggedEntries_ProcessOperation:
  assumes "set (LoggedEntries d) \<subseteq> A \<union> {e. logSource e = ''Remote''}"
  shows "set (LoggedEntries (ProcessOperation op d)) \<subseteq> A \<union> {e. logSource e = ''Remote''}"
proof (rule ProcessOperation_preserves
         [where Q = "\<lambda>s. set (LoggedEntries s) \<subseteq> A \<union> {e. logSource e = ''Remote''}"])
  show "set (LoggedEntries (snd (snd (ResolveConflict c s)))) \<subseteq> A \<union> {e. logSource e = ''Remote''}"
    if "set (LoggedEntries s) \<subseteq> A \<union> {e. logSource e = ''Remote''}" for c s
    using that by simp
  show "set (LoggedEntries (ApplyResolvedOperation op old c s)) \<subseteq> A \<union> {e. logSource e = ''Remote''}"
    if "set (LoggedEntries s) \<subseteq> A \<union> {e. logSource e = ''Remote''}" for old c s
    using that LoggedEntries_ApplyResolvedOperation [of op old c s] by blast
  show "set (LoggedEntries (AddToHistory op
              (LogOperation op old (opValue op) False (DefaultConflict (Clock s)) s)))
          \<subseteq> A \<union> {e. logSource e = ''Remote''}"
    if "set (LoggedEntries s) \<subseteq> A \<union> {e. logSource e = ''Remote''}" for old s
    using that LoggedEntries_LogOperation [of op old "opValue op" False "DefaultConflict (Clock s)" s]
    by auto
  show "set (LoggedEntries d) \<subseteq> A \<union> {e. logSource e = ''Remote''}"
    by (rule assms)
qed

lemma LoggedEntries_other_calls:
  "LoggedEntries (Initialize InDocumentID d) = LoggedEntries d"
  "LoggedEntries (snd (SetContent JsonObject d)) = LoggedEntries d"
  "LoggedEntries (snd (SaveLocally d)) = LoggedEntries d"
  "LoggedEntries (snd (LoadFromLocal d)) = LoggedEntries d"
  "LoggedEntries (snd (RestoreFromSnapshot Ref d)) = LoggedEntries d"
  by (simp_all add: LoggedEntries_def Initialize_def SetContent_def LoadFromLocal_def
        RestoreFromSnapshot_def SetContentFromString_def SetLastErrorMessage_def Let_def
        split: option.splits LocalFile.splits prod.splits bool.splits)

lemma LoggedEntries_RecoverDocument:
  "LoggedEntries (snd (RecoverDocument d)) = LoggedEntries d"
proof -
  have upd: "LoggedEntries (s\<lparr>Broadcasts := bs\<rparr>) = LoggedEntries s"
            "LoggedEntries (SetLastErrorMessage m s) = LoggedEntries s" for s bs m
    by (simp_all add: LoggedEntries_def SetLastErrorMessage_def)
  obtain ok d1 where ld: "LoadFromLocal d = (ok, d1)"
    by (cases "LoadFromLocal d") auto
  obtain ok2 d2 where rs: "RestoreFromSnapshot LastOfHistory d1 = (ok2, d2)"
    by (cases "RestoreFromSnapshot LastOfHistory d1") auto
  have l1: "LoggedEntries d1 = LoggedEntries d"
    using LoggedEntries_other_calls(4) [of d] ld by simp
  have l2: "LoggedEntries d2 = LoggedEntries d"
    using LoggedEntries_other_calls(5) [of LastOfHistory d1] rs l1 by simp
  show ?thesis
    using ld rs l1 l2 by (cases ok; cases ok2) (simp_all add: RecoverDocument_def upd)
qed

text \<open>
  C10. Whatever \<open>ApplyPatch\<close> adds to the logger's entries has \<open>Source\<close> equal to
  \<open>Remote\<close>: every entry held after the call was held before it or has that source.
  The entry \<open>LogOperation\<close> builds has it for every operation and patch, so a logger
  that held no entry with source \<open>Local\<close> holds none afterwards. The document's other
  calls leave the logger's entries as they are.
\<close>

theorem C10_log_source_is_Remote:
  "(\<forall>e \<in> set (LoggedEntries (snd (ApplyPatch Patch d))).
      e \<in> set (LoggedEntries d) \<or> logSource e = ''Remote'') \<and>
   logSource (MakeLogEntry Operation OldValue NewValue bHadConflict Conflict d) = ''Remote'' \<and>
   ((\<forall>e \<in> set (LoggedEntries d). logSource e \<noteq> ''Local'') \<longrightarrow>
    (\<forall>e \<in> set (LoggedEntries (snd (ApplyPatch Patch d))). logSource e \<noteq> ''Local'')) \<and>
   LoggedEntries (Initialize InDocumentID d) = LoggedEntries d \<and>
   LoggedEntries (snd (SetContent JsonObject d)) = LoggedEntries d \<and>
   LoggedEntries (snd (SaveLocally d)) = LoggedEntries d \<and>
   LoggedEntries (snd (LoadFromLocal d)) = LoggedEntries d \<and>
   LoggedEntries (snd (RestoreFromSnapshot Ref d)) = LoggedEntries d \<and>
   LoggedEntries (snd (RecoverDocument d)) = LoggedEntries d"
proof -
  have fold: "set (LoggedEntries (foldl (\<lambda>s Operation. ProcessOperation Operation s) d ops))
                \<subseteq> set (LoggedEntries d) \<union> {e. logSource e = ''Remote''}" for ops
    by (rule foldl_ProcessOperation_preserves
          [where Q = "\<lambda>s. set (LoggedEntries s)
                        \<subseteq> set (LoggedEntries d) \<union> {e. logSource e = ''Remote''}"])
       (simp_all add: LoggedEntries_ProcessOperation)
  have sub: "set (LoggedEntries (snd (ApplyPatch Patch d)))
               \<subseteq> set (LoggedEntries d) \<union> {e. logSource e = ''Remote''}"
    using fold [of "patchOperations Patch"] by (simp add: ApplyPatch_def Let_def)
  have mk: "logSource (MakeLogEntry Operation OldValue NewValue bHadConflict Conflict d) = ''Remote''"
    by (simp add: MakeLogEntry_def)
  have main: "(\<forall>e \<in> set (LoggedEntries (snd (ApplyPatch Patch d))).
      e \<in> set (LoggedEntries d) \<or> logSource e = ''Remote'') \<and>
   ((\<forall>e \<in> set (LoggedEntries d). logSource e \<noteq> ''Local'') \<longrightarrow>
    (\<forall>e \<in> set (LoggedEntries (snd (ApplyPatch Patch d))). logSource e \<noteq> ''Local''))"
    using sub by auto
  show ?thesis
    using main mk LoggedEntries_other_calls LoggedEntries_RecoverDocument by simp
qed

theorem C10_log_source_is_Remote_witness:
  "LoggedEntries ExampleDocument = [] \<and>
   length (LoggedEntries (snd (ApplyPatch
       (ExamplePatch ''doc'' [ExampleReplace ''1'' 1, ExampleReplace ''2'' 2, ExampleTest ''1''])
       ExampleDocument))) = 3 \<and>
   list_all (\<lambda>e. logSource e = ''Remote'')
     (LoggedEntries (snd (ApplyPatch
       (ExamplePatch ''doc'' [ExampleReplace ''1'' 1, ExampleReplace ''2'' 2, ExampleTest ''1''])
       ExampleDocument)))"
proof -
  have before: "LoggedEntries ExampleDocument = []"
    by code_simp
  have after: "length (LoggedEntries (snd (ApplyPatch
       (ExamplePatch ''doc'' [ExampleReplace ''1'' 1, ExampleReplace ''2'' 2, ExampleTest ''1''])
       ExampleDocument))) = 3"
    by code_simp
  show ?thesis
    using C10_log_source_is_Remote
            [of "ExamplePatch ''doc''
                   [ExampleReplace ''1'' 1, ExampleReplace ''2'' 2, ExampleTest ''1'']"
                ExampleDocument]
          before after
    by (simp add: list_all_iff)
qed

section \<open>Recovery\<close>

lemma LoadFromLocal_failure_keeps:
  "\<not> fst (LoadFromLocal d) \<Longrightarrow> SnapshotHistory (snd (LoadFromLocal d)) = SnapshotHistory d"
  "\<not> fst (LoadFromLocal d) \<Longrightarrow> Broadcasts (snd (LoadFromLocal d)) = Broadcasts d"
  "\<not> fst (LoadFromLocal d) \<Longrightarrow> DocumentID (snd (LoadFromLocal d)) = DocumentID d"
  by (auto simp: LoadFromLocal_def SetLastErrorMessage_def Let_def
        split: option.splits LocalFile.splits if_splits)

lemma LoadFromLocal_DocumentID [simp]: "DocumentID (snd (LoadFromLocal d)) = DocumentID d"
  by (simp add: LoadFromLocal_def SetLastErrorMessage_def Let_def
        split: option.splits LocalFile.splits)

lemma RestoreFromSnapshot_DocumentID [simp]:
  "DocumentID (snd (RestoreFromSnapshot Ref d)) = DocumentID d"
  by (simp add: RestoreFromSnapshot_def SetContentFromString_def SetContent_def
        split: option.splits prod.splits bool.splits)

lemma RestoreFromSnapshot_failure_keeps:
  "\<not> fst (RestoreFromSnapshot Ref d) \<Longrightarrow> snd (RestoreFromSnapshot Ref d) = d"
  by (simp add: RestoreFromSnapshot_def SetContentFromString_def SetContent_def
        split: option.splits prod.splits bool.splits if_splits)

lemma RestoreFromSnapshot_Content:
  "fst (RestoreFromSnapshot Ref d) \<Longrightarrow> ReadSnapshot Ref d = Some Snapshot \<Longrightarrow>
   Deserialize (snapContent Snapshot) = Some (Content (snd (RestoreFromSnapshot Ref d)))"
  by (auto simp: RestoreFromSnapshot_def SetContentFromString_def SetContent_def
        split: option.splits prod.splits bool.splits if_splits)

text \<open>
  C9. \<open>RecoverDocument\<close> runs \<open>LoadFromLocal\<close> first. When that succeeds the result is the
  loaded state with one more notification, \<open>OnDocumentRecovered\<close> tagged \<open>LocalStorage\<close>,
  and no restore takes place. When it fails and \<open>SnapshotHistory\<close> is not empty,
  \<open>RestoreFromSnapshot\<close> runs with the reference to the newest snapshot, and its success
  gives the restored state, whose content is the newest snapshot's, with the
  notification tagged \<open>Snapshot\<close>. When the load fails and there is no snapshot or the
  restore fails too, the call fails, records its error in \<open>LastErrorMessage\<close> and sends
  no notification.
\<close>

theorem C9_RecoverDocument_order:
  "(let Loaded = LoadFromLocal d;
        Restored = RestoreFromSnapshot LastOfHistory (snd Loaded)
    in (fst Loaded \<longrightarrow>
          RecoverDocument d =
            (True, (snd Loaded)\<lparr>Broadcasts := Broadcasts (snd Loaded)
                       @ [OnDocumentRecovered (DocumentID d) ''LocalStorage'']\<rparr>)) \<and>
       (\<not> fst Loaded \<and> SnapshotHistory d \<noteq> [] \<and> fst Restored \<longrightarrow>
          RecoverDocument d =
            (True, (snd Restored)\<lparr>Broadcasts := Broadcasts (snd Restored)
                       @ [OnDocumentRecovered (DocumentID d) ''Snapshot'']\<rparr>) \<and>
          Deserialize (snapContent (last (SnapshotHistory d)))
            = Some (Content (snd (RecoverDocument d)))) \<and>
       (\<not> fst Loaded \<and> (SnapshotHistory d = [] \<or> \<not> fst Restored) \<longrightarrow>
          fst (RecoverDocument d) = False \<and>
          LastErrorMessage (snd (RecoverDocument d))
            = ''Failed to recover document from any source'' \<and>
          Broadcasts (snd (RecoverDocument d)) = Broadcasts d))"
proof -
  obtain ok d1 where ld: "LoadFromLocal d = (ok, d1)"
    by (cases "LoadFromLocal d") auto
  obtain ok2 d2 where rs: "RestoreFromSnapshot LastOfHistory d1 = (ok2, d2)"
    by (cases "RestoreFromSnapshot LastOfHistory d1") auto
  have id1: "DocumentID d1 = DocumentID d"
    using LoadFromLocal_DocumentID [of d] ld by simp
  have id2: "DocumentID d2 = DocumentID d"
    using RestoreFromSnapshot_DocumentID [of LastOfHistory d1] rs id1 by simp
  show ?thesis
  proof (cases ok)
    case True
    then show ?thesis using ld id1 by (simp add: RecoverDocument_def Let_def)
  next
    case False
    then have keep: "SnapshotHistory d1 = SnapshotHistory d" "Broadcasts d1 = Broadcasts d"
      using LoadFromLocal_failure_keeps [of d] ld by simp_all
    have keep2: "\<not> ok2 \<Longrightarrow> d2 = d1"
      using RestoreFromSnapshot_failure_keeps [of LastOfHistory d1] rs by simp
    have newest: "Deserialize (snapContent (last (SnapshotHistory d))) = Some (Content d2)"
      if "ok2" "SnapshotHistory d \<noteq> []"
      using RestoreFromSnapshot_Content [of LastOfHistory d1 "last (SnapshotHistory d)"]
            that rs keep
      by (simp add: ReadSnapshot_def)
    show ?thesis
      using False ld rs keep keep2 id2 newest
      by (cases ok2) (auto simp: RecoverDocument_def Let_def)
  qed
qed

theorem C9_RecoverDocument_order_witness:
  "\<not> fst (LoadFromLocal ExampleDocument) \<and> SnapshotHistory ExampleDocument \<noteq> [] \<and>
   fst (RestoreFromSnapshot LastOfHistory (snd (LoadFromLocal ExampleDocument))) \<and>
   fst (RecoverDocument ExampleDocument) \<and>
   last (Broadcasts (snd (RecoverDocument ExampleDocument)))
     = OnDocumentRecovered ''doc'' ''Snapshot'' \<and>
   fst (LoadFromLocal ExampleSavedDocument) \<and>
   fst (RecoverDocument ExampleSavedDocument) \<and>
   last (Broadcasts (snd (RecoverDocument ExampleSavedDocument)))
     = OnDocumentRecovered ''doc'' ''LocalStorage'' \<and>
   \<not> fst (LoadFromLocal (NewDocument ExampleWorld)) \<and>
   SnapshotHistory (NewDocument ExampleWorld) = [] \<and>
   \<not> fst (RecoverDocument (NewDocument ExampleWorld)) \<and>
   LastErrorMessage (snd (RecoverDocument (NewDocument ExampleWorld)))
     = ''Failed to recover document from any source''"
proof -
  have h1: "\<not> fst (LoadFromLocal ExampleDocument)"
    by code_simp
  have h2: "SnapshotHistory ExampleDocument \<noteq> []"
    by code_simp
  have h3: "fst (RestoreFromSnapshot LastOfHistory (snd (LoadFromLocal ExampleDocument)))"
    by code_simp
  have h4: "fst (LoadFromLocal ExampleSavedDocument)"
    by code_simp
  have h5: "\<not> fst (LoadFromLocal (NewDocument ExampleWorld))"
    by code_simp
  have h6: "SnapshotHistory (NewDocument ExampleWorld) = []"
    by (simp add: NewDocument_def)
  have id: "DocumentID ExampleSavedDocument = ''doc''"
    by (simp add: ExampleSavedDocument_def ExampleDocument_facts)
  show ?thesis
    using C9_RecoverDocument_order [of ExampleDocument]
          C9_RecoverDocument_order [of ExampleSavedDocument]
          C9_RecoverDocument_order [of "NewDocument ExampleWorld"]
          h1 h2 h3 h4 h5 h6 id
    by (simp add: Let_def ExampleDocument_facts)
qed

section \<open>Path resolution\<close>

lemma GetValueAtPath_parts:
  "GetValueAtPath (Some Object) Path =
     (if Path = [] then None
      else if PathPartsOf Path = [] then Some (JObject Object)
      else FollowPath (JObject Object) (PathPartsOf Path))"
  by (simp add: GetValueAtPath_def PathPartsOf_def Let_def)

lemma FollowPath_append:
  assumes "FollowPath v Before = Some w"
      and "SegmentMissing w Part"
  shows "FollowPath v (Before @ Part # After) = None"
  using assms
proof (induction Before arbitrary: v)
  case Nil
  then show ?case
    by (cases v) (auto simp: SegmentMissing_def Let_def)
next
  case (Cons p ps)
  show ?case
  proof (cases v)
    case (JObject Object)
    then show ?thesis
      using Cons by (cases "FindField Object (Unescape p)") (simp_all add: Let_def)
  next
    case (JArray Array)
    then show ?thesis
      using Cons by (simp add: Let_def split: if_splits)
  next
    case JNull
    then show ?thesis
      using Cons.prems by (cases ps) (auto simp: SegmentMissing_def)
  next
    case (JBoolean b)
    then show ?thesis
      using Cons.prems by (cases ps) (auto simp: SegmentMissing_def)
  next
    case (JNumber r)
    then show ?thesis
      using Cons.prems by (cases ps) (auto simp: SegmentMissing_def)
  next
    case (JString s)
    then show ?thesis
      using Cons.prems by (cases ps) (auto simp: SegmentMissing_def)
  qed
qed

text \<open>
  The part of the path resolver's contract that the code keeps: for a non-empty path,
  if the parts before some part lead to an object that lacks the part as a key, or to
  an array for which the part's index is negative or not below the array's length, the
  result is nothing, whatever parts follow; and a non-empty path without parts gives
  the whole root.
\<close>

lemma GetValueAtPath_missing_segment:
  "Path \<noteq> [] \<Longrightarrow> PathPartsOf Path = Before @ Part # After \<Longrightarrow>
   FollowPath (JObject Object) Before = Some v \<Longrightarrow> SegmentMissing v Part \<Longrightarrow>
   GetValueAtPath (Some Object) Path = None"
  using FollowPath_append [of "JObject Object" Before v Part After]
  by (auto simp: GetValueAtPath_parts)

lemma GetValueAtPath_no_parts:
  "Path \<noteq> [] \<Longrightarrow> PathPartsOf Path = [] \<Longrightarrow>
   GetValueAtPath (Some Object) Path = Some (JObject Object)"
  by (simp add: GetValueAtPath_parts)

text \<open>
  C4 at a concrete input. For the object \<open>{"a": ["x", null]}\<close> the empty path gives
  nothing, where the path \<open>/\<close> gives the whole root: the guard on \<open>Path.IsEmpty()\<close> at the
  head of \<open>GetValueAtPath\<close> returns before the branch that returns the whole object for
  a path without parts.
\<close>

theorem C4_empty_path_returns_nothing:
  "GetValueAtPath (Some ExampleObject) [] = None \<and>
   PathPartsOf [] = [] \<and>
   GetValueAtPath (Some ExampleObject) ''/'' = Some (JObject ExampleObject)"
  by (simp add: GetValueAtPath_def PathPartsOf_def ParseIntoArray_def)

section \<open>Patches of \<open>Test\<close> operations\<close>

lemma AddBounded_cases:
  assumes "int (length xs) \<le> cap"
  shows "length xs < nat cap \<Longrightarrow> AddBounded cap xs x = xs @ [x]"
    and "length xs = nat cap \<Longrightarrow> AddBounded cap xs x = tl (xs @ [x])"
    and "length (AddBounded cap xs x) \<le> nat cap"
  using assms by (auto simp: AddBounded_def)

lemma foldl_AddBounded:
  "int (length xs) \<le> cap \<Longrightarrow>
   foldl (AddBounded cap) xs ys = drop (length xs + length ys - nat cap) (xs @ ys)"
proof (induction ys arbitrary: xs)
  case Nil
  then show ?case by simp
next
  case (Cons y ys)
  have le: "length xs \<le> nat cap"
    using Cons.prems by linarith
  show ?case
  proof (cases "length xs < nat cap")
    case True
    then have step: "AddBounded cap xs y = xs @ [y]"
      using AddBounded_cases(1) [OF Cons.prems] by simp
    have "int (length (xs @ [y])) \<le> cap"
      using True by simp
    from Cons.IH [OF this] show ?thesis
      by (simp add: step)
  next
    case False
    then have full: "length xs = nat cap"
      using le by simp
    then have step: "AddBounded cap xs y = tl (xs @ [y])"
      using AddBounded_cases(2) [OF Cons.prems] by simp
    have len: "length (tl (xs @ [y])) = nat cap"
      using full by simp
    then have "int (length (tl (xs @ [y]))) \<le> cap"
      using Cons.prems by linarith
    from Cons.IH [OF this]
    have "foldl (AddBounded cap) xs (y # ys) = drop (length ys) (tl (xs @ [y]) @ ys)"
      using len by (simp add: step)
    also have "tl (xs @ [y]) @ ys = tl (xs @ y # ys)"
      by (cases xs) simp_all
    also have "drop (length ys) (tl (xs @ y # ys)) = drop (Suc (length ys)) (xs @ y # ys)"
      by (simp only: drop_Suc)
    also have "Suc (length ys) = length xs + length (y # ys) - nat cap"
      using full by simp
    finally show ?thesis .
  qed
qed

lemma ProcessOperation_Test:
  "opType Operation = Test \<Longrightarrow>
   ProcessOperation Operation d =
     AddToHistory Operation
       (LogOperation Operation (OldValueAt d (opPath Operation)) (opValue Operation) False
          (DefaultConflict (Clock d)) d)"
  by (simp add: ProcessOperation_def OldValueAt_def Let_def)

lemma ProcessOperation_Test_history:
  "opType Operation = Test \<Longrightarrow>
   OperationHistory (ProcessOperation Operation d)
     = AddBounded (MaxOperationHistory d) (OperationHistory d) Operation"
  by (simp add: ProcessOperation_Test AddToHistory_def AddBounded_def Let_def)

lemma foldl_Test_history:
  "list_all (\<lambda>Operation. opType Operation = Test) Operations \<Longrightarrow>
   OperationHistory (foldl (\<lambda>s Operation. ProcessOperation Operation s) d Operations)
     = foldl (AddBounded (MaxOperationHistory d)) (OperationHistory d) Operations"
proof (induction Operations arbitrary: d)
  case Nil
  then show ?case by simp
next
  case (Cons Operation Operations)
  have "MaxOperationHistory (ProcessOperation Operation d) = MaxOperationHistory d"
    by (rule ProcessOperation_preserves
          [where Q = "\<lambda>s. MaxOperationHistory s = MaxOperationHistory d"]) simp_all
  then show ?case
    using Cons by (simp add: ProcessOperation_Test_history)
qed

lemma ProcessOperation_Clock [simp]: "Clock (ProcessOperation Operation d) = Clock d"
  by (rule ProcessOperation_preserves [where Q = "\<lambda>s. Clock s = Clock d"]) simp_all

lemma ProcessOperation_DocumentID [simp]:
  "DocumentID (ProcessOperation Operation d) = DocumentID d"
  by (rule ProcessOperation_preserves [where Q = "\<lambda>s. DocumentID s = DocumentID d"]) simp_all

lemma PlainLogEntries_cong:
  "Content a = Content b \<Longrightarrow> Clock a = Clock b \<Longrightarrow> DocumentID a = DocumentID b \<Longrightarrow>
   Guids a = Guids b \<Longrightarrow> PlainLogEntries a Operations = PlainLogEntries b Operations"
proof (induction Operations arbitrary: a b)
  case Nil
  then show ?case by simp
next
  case (Cons Operation Operations)
  have "PlainLogEntries (a\<lparr>Guids := Suc (Guids a)\<rparr>) Operations
          = PlainLogEntries (b\<lparr>Guids := Suc (Guids b)\<rparr>) Operations"
    by (rule Cons.IH) (simp_all add: Cons.prems)
  then show ?case
    using Cons.prems by (simp add: MakeLogEntry_def OldValueAt_def)
qed

lemma ProcessOperation_Test_logger:
  assumes "opType Operation = Test" and "Logger d = Some L" and "bLoggingEnabled L"
  shows "Logger (ProcessOperation Operation d) =
           Some (L\<lparr>LogEntries :=
                     AddBounded (MaxLogEntries L) (LogEntries L)
                       (MakeLogEntry Operation (OldValueAt d (opPath Operation))
                          (opValue Operation) False (DefaultConflict (Clock d)) d)\<rparr>)"
    and "Guids (ProcessOperation Operation d) = Suc (Guids d)"
  using assms
  by (simp_all add: ProcessOperation_Test LogOperation_def Logger_LogOperation_def
        AddBounded_def Let_def)

lemma foldl_Test_logger:
  assumes "list_all (\<lambda>Operation. opType Operation = Test) Operations"
      and "Logger d = Some L" and "bLoggingEnabled L"
  shows "Logger (foldl (\<lambda>s Operation. ProcessOperation Operation s) d Operations) =
           Some (L\<lparr>LogEntries :=
                     foldl (AddBounded (MaxLogEntries L)) (LogEntries L)
                       (PlainLogEntries d Operations)\<rparr>)"
  using assms
proof (induction Operations arbitrary: d L)
  case Nil
  then show ?case by simp
next
  case (Cons Operation Operations)
  let ?e = "MakeLogEntry Operation (OldValueAt d (opPath Operation))
              (opValue Operation) False (DefaultConflict (Clock d)) d"
  let ?L1 = "L\<lparr>LogEntries := AddBounded (MaxLogEntries L) (LogEntries L) ?e\<rparr>"
  let ?d1 = "ProcessOperation Operation d"
  have test: "opType Operation = Test"
    and rest: "list_all (\<lambda>Operation. opType Operation = Test) Operations"
    using Cons.prems(1) by simp_all
  have lg: "Logger ?d1 = Some ?L1" and gd: "Guids ?d1 = Suc (Guids d)"
    using ProcessOperation_Test_logger [OF test Cons.prems(2) Cons.prems(3)] by simp_all
  have en: "bLoggingEnabled ?L1"
    using Cons.prems(3) by simp
  have same: "PlainLogEntries ?d1 Operations
                = PlainLogEntries (d\<lparr>Guids := Suc (Guids d)\<rparr>) Operations"
    by (rule PlainLogEntries_cong) (simp_all add: gd)
  show ?case
    using Cons.IH [OF rest lg en] same by simp
qed


lemma PlainLogEntries_facts:
  "length (PlainLogEntries d Operations) = length Operations"
  "map logPath (PlainLogEntries d Operations) = map opPath Operations"
  "map logOperationType (PlainLogEntries d Operations)
     = map (\<lambda>Operation. OperationTypeName (opType Operation)) Operations"
  "list_all (\<lambda>e. \<not> logbHadConflict e \<and> logSource e = ''Remote'') (PlainLogEntries d Operations)"
  by (induction Operations arbitrary: d) (simp_all add: MakeLogEntry_def)

text \<open>
  C3, as the spec states it, fails on the version: a patch of one \<open>Test\<close> operation for
  the document \<open>doc\<close> takes its version from 1 to 2.
\<close>

theorem C3_Test_patch_changes_version_counterexample:
  "patchDocumentID (ExamplePatch ''doc'' [ExampleTest ''1'']) = DocumentID ExampleDocument \<and>
   list_all (\<lambda>Operation. opType Operation = Test)
     (patchOperations (ExamplePatch ''doc'' [ExampleTest ''1''])) \<and>
   Version ExampleDocument = 1 \<and>
   Version (snd (ApplyPatch (ExamplePatch ''doc'' [ExampleTest ''1'']) ExampleDocument)) = 2 \<and>
   Version (snd (ApplyPatch (ExamplePatch ''doc'' [ExampleTest ''1'']) ExampleDocument))
     \<noteq> Version ExampleDocument"
proof -
  have same: "patchDocumentID (ExamplePatch ''doc'' [ExampleTest ''1'']) = DocumentID ExampleDocument"
    by (simp add: ExamplePatch_def ExampleDocument_facts)
  show ?thesis
    using ApplyPatch_Version [OF FString_Equals_same [OF same]]
    by (simp add: ExamplePatch_def ExampleTest_def ExampleDocument_facts)
qed

text \<open>
  C3, amended. A patch for the document (its id equal to the document's as \<open>ApplyPatch\<close>
  compares them) that consists of \<open>Test\<close> operations only leaves
  the content unchanged and raises the version by exactly 1, as every applied patch
  does; the loop over the operations itself leaves the version as it is, the increment
  is the one \<open>ApplyPatch\<close> makes after the loop. Each operation is added to \<open>OperationHistory\<close> in order, the oldest entries
  leaving once \<open>MaxOperationHistory\<close> is exceeded: the history afterwards is the last
  \<open>MaxOperationHistory\<close> entries of the old history followed by the patch's operations.
  With a logger whose logging is enabled, each operation gives one log entry, of type
  \<open>Test\<close> and without a conflict, added to the logger's entries under the logger's own
  capacity in the same way.
\<close>

theorem C3_Test_only_patch:
  assumes "FString_Equals (patchDocumentID Patch) (DocumentID d)"
      and "list_all (\<lambda>Operation. opType Operation = Test) (patchOperations Patch)"
  shows "Content (snd (ApplyPatch Patch d)) = Content d \<and>
         Version (snd (ApplyPatch Patch d)) = Version d + 1 \<and>
         Version (foldl (\<lambda>s Operation. ProcessOperation Operation s) d (patchOperations Patch))
           = Version d \<and>
         (int (length (OperationHistory d)) \<le> MaxOperationHistory d \<longrightarrow>
            OperationHistory (snd (ApplyPatch Patch d))
              = drop (length (OperationHistory d) + length (patchOperations Patch)
                        - nat (MaxOperationHistory d))
                  (OperationHistory d @ patchOperations Patch)) \<and>
         (\<forall>L. Logger d = Some L \<and> bLoggingEnabled L \<and>
               int (length (LogEntries L)) \<le> MaxLogEntries L \<longrightarrow>
            LoggedEntries (snd (ApplyPatch Patch d))
              = drop (length (LogEntries L) + length (patchOperations Patch)
                        - nat (MaxLogEntries L))
                  (LogEntries L @ PlainLogEntries d (patchOperations Patch))) \<and>
         length (PlainLogEntries d (patchOperations Patch)) = length (patchOperations Patch) \<and>
         list_all (\<lambda>e. logOperationType e = ''Test'' \<and> \<not> logbHadConflict e)
           (PlainLogEntries d (patchOperations Patch))"
proof -
  let ?ops = "patchOperations Patch"
  let ?d1 = "foldl (\<lambda>s Operation. ProcessOperation Operation s) d ?ops"
  have hist: "OperationHistory (snd (ApplyPatch Patch d)) = OperationHistory ?d1"
    and logg: "Logger (snd (ApplyPatch Patch d)) = Logger ?d1"
    using assms(1) by (simp_all add: ApplyPatch_def Let_def)
  have a: "Content (snd (ApplyPatch Patch d)) = Content d"
    by (rule ApplyPatch_Content)
  have b: "Version (snd (ApplyPatch Patch d)) = Version d + 1"
    by (rule ApplyPatch_Version [OF assms(1)])
  have c: "OperationHistory (snd (ApplyPatch Patch d))
             = drop (length (OperationHistory d) + length ?ops - nat (MaxOperationHistory d))
                 (OperationHistory d @ ?ops)"
    if "int (length (OperationHistory d)) \<le> MaxOperationHistory d"
    using foldl_Test_history [OF assms(2), of d] foldl_AddBounded [OF that, of ?ops]
    by (simp add: hist)
  have e: "LoggedEntries (snd (ApplyPatch Patch d))
             = drop (length (LogEntries L) + length ?ops - nat (MaxLogEntries L))
                 (LogEntries L @ PlainLogEntries d ?ops)"
    if "Logger d = Some L" "bLoggingEnabled L" "int (length (LogEntries L)) \<le> MaxLogEntries L"
    for L
    using foldl_Test_logger [OF assms(2) that(1) that(2)]
          foldl_AddBounded [OF that(3), of "PlainLogEntries d ?ops"]
    by (simp add: LoggedEntries_def logg PlainLogEntries_facts(1))
  have f: "list_all (\<lambda>e. logOperationType e = ''Test'' \<and> \<not> logbHadConflict e)
             (PlainLogEntries d ?ops)"
  proof -
    have "\<forall>x \<in> set (map logOperationType (PlainLogEntries d ?ops)). x = ''Test''"
      using assms(2) by (auto simp: PlainLogEntries_facts(3) list_all_iff OperationTypeName_def)
    then show ?thesis
      using PlainLogEntries_facts(4) [of d ?ops] by (auto simp: list_all_iff)
  qed
  have g: "Version ?d1 = Version d"
    by simp
  show ?thesis
    using a b c e f g PlainLogEntries_facts(1) [of d ?ops] by blast
qed

theorem C3_Test_only_patch_witness:
  "patchDocumentID (ExamplePatch ''doc'' [ExampleTest ''1'', ExampleTest ''2''])
     = DocumentID ExampleDocument \<and>
   list_all (\<lambda>Operation. opType Operation = Test)
     (patchOperations (ExamplePatch ''doc'' [ExampleTest ''1'', ExampleTest ''2''])) \<and>
   Content (snd (ApplyPatch (ExamplePatch ''doc'' [ExampleTest ''1'', ExampleTest ''2''])
                   ExampleDocument)) = [] \<and>
   Version (snd (ApplyPatch (ExamplePatch ''doc'' [ExampleTest ''1'', ExampleTest ''2''])
                   ExampleDocument)) = 2 \<and>
   OperationHistory (snd (ApplyPatch (ExamplePatch ''doc'' [ExampleTest ''1'', ExampleTest ''2''])
                            ExampleDocument)) = [ExampleTest ''1'', ExampleTest ''2''] \<and>
   length (LoggedEntries (snd (ApplyPatch
             (ExamplePatch ''doc'' [ExampleTest ''1'', ExampleTest ''2'']) ExampleDocument))) = 2"
proof -
  have same: "patchDocumentID (ExamplePatch ''doc'' [ExampleTest ''1'', ExampleTest ''2''])
                = DocumentID ExampleDocument"
    by (simp add: ExamplePatch_def ExampleDocument_facts)
  have tests: "list_all (\<lambda>Operation. opType Operation = Test)
                 (patchOperations (ExamplePatch ''doc'' [ExampleTest ''1'', ExampleTest ''2'']))"
    by (simp add: ExamplePatch_def ExampleTest_def)
  have ops: "patchOperations (ExamplePatch ''doc'' [ExampleTest ''1'', ExampleTest ''2''])
               = [ExampleTest ''1'', ExampleTest ''2'']"
    by (simp add: ExamplePatch_def)
  show ?thesis
    using C3_Test_only_patch [OF FString_Equals_same [OF same] tests] same tests
    by (simp add: ExampleDocument_facts ops)
qed

section \<open>The scan for a conflicting local operation\<close>

text \<open>
  C1 at a concrete input. The document \<open>doc\<close> has taken a patch of two \<open>Replace\<close>
  operations on \<open>/a\<close>, with values 1 and 2; its history holds both, one conflict was
  notified and two entries were logged. A patch with the single operation \<open>Replace\<close> of
  \<open>/a\<close> by 3 then meets both history entries: the scan does not stop at the newer one,
  the operation is added to the history twice, two conflicts are notified and two
  entries are logged for it.
\<close>

theorem C1_every_matching_entry_conflicts:
  "map opValue (OperationHistory ExampleTwoReplaces) = [''1'', ''2''] \<and>
   length (filter IsConflictDetected (Broadcasts ExampleTwoReplaces)) = 1 \<and>
   length (LoggedEntries ExampleTwoReplaces) = 2 \<and>
   fst (ApplyPatch (ExamplePatch ''doc'' [ExampleReplace ''3'' 3]) ExampleTwoReplaces) \<and>
   map opValue (OperationHistory
     (snd (ApplyPatch (ExamplePatch ''doc'' [ExampleReplace ''3'' 3]) ExampleTwoReplaces)))
     = [''1'', ''2'', ''3'', ''3''] \<and>
   length (filter IsConflictDetected (Broadcasts
     (snd (ApplyPatch (ExamplePatch ''doc'' [ExampleReplace ''3'' 3]) ExampleTwoReplaces)))) = 3 \<and>
   length (LoggedEntries
     (snd (ApplyPatch (ExamplePatch ''doc'' [ExampleReplace ''3'' 3]) ExampleTwoReplaces))) = 4"
  by code_simp

text \<open>
  C2 at a concrete input. The document \<open>doc\<close> has the default resolver with strategy
  \<open>Custom\<close> and holds one \<open>Replace\<close> of \<open>/a\<close> by 1 in its history. A patch with the single
  operation \<open>Replace\<close> of \<open>/a\<close> by 2 meets it; the resolver fails, and the operation is
  neither added to the history nor logged, while the patch as a whole succeeds.
\<close>

theorem C2_unresolved_conflict_drops_operation:
  "(case ConflictResolver ExampleCustomDocument of
      Some (FJsonCRDTDefaultConflictResolver Strategy) \<Rightarrow> Strategy = Custom
    | _ \<Rightarrow> False) \<and>
   map opValue (OperationHistory ExampleCustomDocument) = [''1''] \<and>
   length (LoggedEntries ExampleCustomDocument) = 1 \<and>
   fst (ApplyPatch (ExamplePatch ''doc'' [ExampleReplace ''2'' 2]) ExampleCustomDocument) \<and>
   map opValue (OperationHistory
     (snd (ApplyPatch (ExamplePatch ''doc'' [ExampleReplace ''2'' 2]) ExampleCustomDocument)))
     = [''1''] \<and>
   length (LoggedEntries
     (snd (ApplyPatch (ExamplePatch ''doc'' [ExampleReplace ''2'' 2]) ExampleCustomDocument))) = 1 \<and>
   filter IsConflictDetected (Broadcasts
     (snd (ApplyPatch (ExamplePatch ''doc'' [ExampleReplace ''2'' 2]) ExampleCustomDocument))) = []"
  by code_simp

section \<open>Capacity of the snapshot history\<close>

lemma LoadFromLocal_after_SaveLocally:
  assumes "bCanSaveFile d" and "bCanCreateDirectory d" and "SnapshotHistory d \<noteq> []"
      and "FString_Equals (snapDocumentID (last (SnapshotHistory d))) (DocumentID d)"
  shows "fst (SaveLocally d)"
    and "fst (LoadFromLocal (snd (SaveLocally d)))"
    and "length (SnapshotHistory (snd (LoadFromLocal (snd (SaveLocally d)))))
           = Suc (length (SnapshotHistory d))"
    and "MaxSnapshotHistory (snd (LoadFromLocal (snd (SaveLocally d)))) = MaxSnapshotHistory d"
  using assms
  by (simp_all add: SaveLocally_def LoadFromLocal_def GetLocalStoragePath_def Let_def)

text \<open>
  C5 at a concrete input. After \<open>Initialize\<close> and nine calls of \<open>SetContent\<close> the snapshot
  history holds 10 entries, its capacity. \<open>SaveLocally\<close> followed by \<open>LoadFromLocal\<close> both
  succeed there and leave 11 entries: \<open>LoadFromLocal\<close> adds the saved snapshot without
  the trimming that \<open>CreateAndAddSnapshot\<close> does.
\<close>

theorem C5_LoadFromLocal_exceeds_MaxSnapshotHistory:
  "length (SnapshotHistory ExampleFullDocument) = 10 \<and>
   MaxSnapshotHistory ExampleFullDocument = 10 \<and>
   fst (SaveLocally ExampleFullDocument) \<and>
   fst (LoadFromLocal (snd (SaveLocally ExampleFullDocument))) \<and>
   length (SnapshotHistory (snd (LoadFromLocal (snd (SaveLocally ExampleFullDocument))))) = 11 \<and>
   MaxSnapshotHistory (snd (LoadFromLocal (snd (SaveLocally ExampleFullDocument)))) = 10"
proof -
  note full = ExampleFullDocument_facts
  have ne: "SnapshotHistory ExampleFullDocument \<noteq> []"
    using full(1) by auto
  have same: "FString_Equals (snapDocumentID (last (SnapshotHistory ExampleFullDocument)))
                (DocumentID ExampleFullDocument)"
    by (simp add: full)
  show ?thesis
    using LoadFromLocal_after_SaveLocally [OF full(5) full(6) ne same] full by simp
qed

end
